theory Spec2Isabelle
  imports Main "HOL-Library.AList"
begin

section \<open>Values, dictionaries and time\<close>

text \<open>
  A \<^verbatim>\<open>datetime\<close> is the number of microseconds since the epoch (naive UTC, the
  resolution of Python's \<^verbatim>\<open>datetime\<close>); a \<^verbatim>\<open>timedelta\<close> is a number of
  microseconds. Python's integers are unbounded, so both are \<^typ>\<open>int\<close>.
\<close>

type_synonym datetime = int
type_synonym timedelta = int

definition timedelta_minutes :: "int \<Rightarrow> timedelta" where
  "timedelta_minutes m = m * 60 * 1000000"

definition timedelta_hours :: "int \<Rightarrow> timedelta" where
  "timedelta_hours h = h * 3600 * 1000000"

definition timedelta_days :: "int \<Rightarrow> timedelta" where
  "timedelta_days d = d * 86400 * 1000000"

text \<open>\<^verbatim>\<open>calendar.timegm(d.utctimetuple())\<close>: whole seconds, the microseconds dropped.\<close>

definition timegm :: "datetime \<Rightarrow> int" where
  "timegm d = d div 1000000"

text \<open>\<^verbatim>\<open>datetime.utcfromtimestamp(s)\<close> for an integer number of seconds.\<close>

definition utcfromtimestamp :: "int \<Rightarrow> datetime" where
  "utcfromtimestamp s = s * 1000000"

text \<open>
  Every call of \<^verbatim>\<open>datetime.utcnow()\<close> (and the clock read inside the JWT library's
  \<^verbatim>\<open>decode\<close>) is a separate read of the wall clock. A function that reads the clock
  takes a \<open>clock\<close>: \<open>clk i\<close> is what its \<open>i\<close>-th read returns, counted from 0 in the
  order the reads are executed. \<open>clock_after n clk\<close> is the clock left to a callee after
  \<open>n\<close> reads.
\<close>

type_synonym clock = "nat \<Rightarrow> datetime"

definition clock_after :: "nat \<Rightarrow> clock \<Rightarrow> clock" where
  "clock_after n clk = (\<lambda>i. clk (i + n))"

text \<open>The Python values that occur in token payloads and in user documents.\<close>

datatype pyval = VNone | VBool bool | VInt int | VStr string | VDatetime datetime

text \<open>
  A \<^verbatim>\<open>dict\<close> with string keys, in insertion order (the order is part of a token's
  wire form). \<open>dict_get\<close> is \<^verbatim>\<open>d.get(k)\<close> (\<^verbatim>\<open>None\<close> for a missing key),
  \<open>dict_update\<close> is \<^verbatim>\<open>d.update(e)\<close>: a key already present keeps its place.
\<close>

type_synonym pydict = "(string \<times> pyval) list"

definition dict_get :: "pydict \<Rightarrow> string \<Rightarrow> pyval" where
  "dict_get d k = (case map_of d k of None \<Rightarrow> VNone | Some v \<Rightarrow> v)"

definition dict_update :: "pydict \<Rightarrow> pydict \<Rightarrow> pydict" where
  "dict_update d e = fold (\<lambda>(k, v). AList.update k v) e d"

text \<open>Python truthiness (\<^verbatim>\<open>if x:\<close>, \<^verbatim>\<open>not x\<close>).\<close>

fun truthy :: "pyval \<Rightarrow> bool" where
  "truthy VNone = False"
| "truthy (VBool b) = b"
| "truthy (VInt i) = (i \<noteq> 0)"
| "truthy (VStr s) = (s \<noteq> [])"
| "truthy (VDatetime d) = True"

section \<open>Settings (app/config/settings.py)\<close>

record settings =
  JWT_SECRET_KEY :: string
  JWT_ALGORITHM :: string
  ACCESS_TOKEN_EXPIRE_MINUTES :: int
  REFRESH_TOKEN_EXPIRE_DAYS :: int
  GOOGLE_CLIENT_ID :: string
  FRONTEND_URL :: string

text \<open>The defaults of the class; \<^verbatim>\<open>JWT_SECRET_KEY\<close> has none and comes from the environment.\<close>

definition default_settings :: "string \<Rightarrow> settings" where
  "default_settings secret =
     \<lparr> JWT_SECRET_KEY = secret, JWT_ALGORITHM = ''HS256'',
       ACCESS_TOKEN_EXPIRE_MINUTES = 30, REFRESH_TOKEN_EXPIRE_DAYS = 7,
       GOOGLE_CLIENT_ID = '''', FRONTEND_URL = ''http://localhost:3000'' \<rparr>"

section \<open>The JWT library (python-jose), as this program uses it\<close>

text \<open>
  The library is an external collaborator. Its signature is modelled symbolically: a
  signed token is the triple of the algorithm of its header, the key it was signed with
  and its payload, and a signature verifies exactly when the verifying key is the signing
  key. Any other string is \<open>NotAToken\<close>. The algorithm of the settings is taken to be one
  of the symmetric algorithms the library supports, so that signing itself does not fail.
\<close>

datatype token = Signed (tok_alg: string) (tok_key: string) (tok_payload: pydict)
  | NotAToken string

text \<open>
  The failures of the library's \<^verbatim>\<open>jwt.decode\<close> (all of class \<^verbatim>\<open>JWTError\<close>) and the
  \<^verbatim>\<open>JWTError\<close>s that app/utils/jwt.py raises itself. The last two constructors are
  the re-raises of jwt.py, which prefix the text of the error they caught.
\<close>

datatype jwt_error =
    NotEnoughSegments
  | AlgNotAllowed
  | SignatureVerificationFailed
  | SignatureHasExpired
  | InvalidClaim string
  | TokenMissingSubject
  | InvalidTokenType string pyval
  | TokenMissingEmail
  | InvalidTypeForPasswordReset
  | CouldNotValidateToken jwt_error
  | InvalidOrExpiredResetToken jwt_error

text \<open>
  \<^verbatim>\<open>jwt.encode(claims, key, algorithm)\<close>: a \<^verbatim>\<open>datetime\<close> under \<^verbatim>\<open>exp\<close>,
  \<^verbatim>\<open>iat\<close> or \<^verbatim>\<open>nbf\<close> is replaced by its integer timestamp, then the claims are
  signed.
\<close>

definition intdate :: "string \<times> pyval \<Rightarrow> string \<times> pyval" where
  "intdate kv =
     (case kv of
        (k, VDatetime d) \<Rightarrow>
          (if k = ''exp'' \<or> k = ''iat'' \<or> k = ''nbf'' then (k, VInt (timegm d)) else (k, VDatetime d))
      | (k, v) \<Rightarrow> (k, v))"

definition jwt_encode :: "pydict \<Rightarrow> string \<Rightarrow> string \<Rightarrow> token" where
  "jwt_encode claims key algorithm = Signed algorithm key (map intdate claims)"

text \<open>
  \<^verbatim>\<open>jwt.decode(token, key, algorithms)\<close> with the default options, read at clock
  \<open>clk\<close>. The signature is settled before any claim is looked at. Of the claim checks,
  the model has the two that touch the claims this program writes: \<^verbatim>\<open>exp\<close> (expired
  when \<^verbatim>\<open>exp < now\<close>, in whole seconds, no leeway) and \<^verbatim>\<open>sub\<close> (a string when
  present). The library's checks of \<^verbatim>\<open>nbf\<close>, \<^verbatim>\<open>aud\<close>, \<^verbatim>\<open>iss\<close>, \<^verbatim>\<open>jti\<close> and
  \<^verbatim>\<open>at_hash\<close> are not modelled; no token of this program carries those claims.
\<close>

definition validate_exp :: "pydict \<Rightarrow> int \<Rightarrow> jwt_error option" where
  "validate_exp claims now =
     (case map_of claims ''exp'' of
        None \<Rightarrow> None
      | Some (VInt e) \<Rightarrow> (if e < now then Some SignatureHasExpired else None)
      | Some _ \<Rightarrow> Some (InvalidClaim ''exp''))"

definition validate_sub :: "pydict \<Rightarrow> jwt_error option" where
  "validate_sub claims =
     (case map_of claims ''sub'' of
        None \<Rightarrow> None
      | Some (VStr s) \<Rightarrow> None
      | Some _ \<Rightarrow> Some (InvalidClaim ''sub''))"

definition jwt_decode :: "clock \<Rightarrow> token \<Rightarrow> string \<Rightarrow> string list \<Rightarrow> jwt_error + pydict" where
  "jwt_decode clk tok key algorithms =
     (case tok of
        NotAToken s \<Rightarrow> Inl NotEnoughSegments
      | Signed alg k claims \<Rightarrow>
          if alg \<notin> set algorithms then Inl AlgNotAllowed
          else if k \<noteq> key then Inl SignatureVerificationFailed
          else (case validate_exp claims (timegm (clk 0)) of
                  Some e \<Rightarrow> Inl e
                | None \<Rightarrow>
                    (case validate_sub claims of
                       Some e \<Rightarrow> Inl e
                     | None \<Rightarrow> Inr claims)))"

section \<open>Token payload data (app/models/auth.py)\<close>

text \<open>
  \<^verbatim>\<open>class TokenData(BaseModel)\<close> declares three fields: \<^verbatim>\<open>uid: str\<close>,
  \<^verbatim>\<open>email: Optional[str] = None\<close> and \<^verbatim>\<open>token_type: str\<close>.
\<close>

record TokenData =
  uid :: string
  email :: "string option"
  token_type :: string

text \<open>
  The exceptions other than \<^verbatim>\<open>HTTPException\<close>: the library's \<^verbatim>\<open>JWTError\<close>, the
  model validation error of \<^verbatim>\<open>TokenData(...)\<close>, \<^verbatim>\<open>AttributeError\<close> (class name and
  attribute), \<^verbatim>\<open>TypeError\<close>, and the failures of the external services (Firestore,
  Firebase Auth, the Google verifier, the mail transport), each with its text.
\<close>

datatype py_exn =
    JWTError jwt_error
  | ValidationError
  | AttributeError string string
  | TypeError
  | ServiceError string

text \<open>
  The constructor call \<^verbatim>\<open>TokenData(uid=.., email=.., token_type=..)\<close>: the model
  validates the field types and raises its validation error otherwise.
\<close>

definition TokenData_init :: "pyval \<Rightarrow> pyval \<Rightarrow> pyval \<Rightarrow> py_exn + TokenData" where
  "TokenData_init u e t =
     (case (u, t) of
        (VStr us, VStr ts) \<Rightarrow>
          (case e of
             VNone \<Rightarrow> Inr \<lparr> uid = us, email = None, token_type = ts \<rparr>
           | VStr es \<Rightarrow> Inr \<lparr> uid = us, email = Some es, token_type = ts \<rparr>
           | _ \<Rightarrow> Inl ValidationError)
      | _ \<Rightarrow> Inl ValidationError)"

text \<open>
  Attribute access \<^verbatim>\<open>obj.name\<close> on a \<^verbatim>\<open>TokenData\<close>: the three declared fields
  resolve, every other name raises \<^verbatim>\<open>AttributeError\<close>.
\<close>

definition TokenData_getattr :: "TokenData \<Rightarrow> string \<Rightarrow> py_exn + pyval" where
  "TokenData_getattr td name =
     (if name = ''uid'' then Inr (VStr (uid td))
      else if name = ''email'' then Inr (case email td of None \<Rightarrow> VNone | Some e \<Rightarrow> VStr e)
      else if name = ''token_type'' then Inr (VStr (token_type td))
      else Inl (AttributeError ''TokenData'' name))"

section \<open>Issuing and verifying tokens (app/utils/jwt.py)\<close>

definition create_access_token :: "settings \<Rightarrow> clock \<Rightarrow> pydict \<Rightarrow> timedelta option \<Rightarrow> token" where
  "create_access_token st clk data expires_delta =
     (let to_encode = data;
          expire = (case expires_delta of
                      Some d \<Rightarrow>
                        (if d \<noteq> 0 then clk 0 + d
                         else clk 0 + timedelta_minutes (ACCESS_TOKEN_EXPIRE_MINUTES st))
                    | None \<Rightarrow> clk 0 + timedelta_minutes (ACCESS_TOKEN_EXPIRE_MINUTES st));
          to_encode = dict_update to_encode
            [(''exp'', VDatetime expire), (''iat'', VDatetime (clk 1)),
             (''token_type'', VStr ''access'')]
      in jwt_encode to_encode (JWT_SECRET_KEY st) (JWT_ALGORITHM st))"

definition create_refresh_token :: "settings \<Rightarrow> clock \<Rightarrow> pydict \<Rightarrow> timedelta option \<Rightarrow> token" where
  "create_refresh_token st clk data expires_delta =
     (let to_encode = data;
          expire = (case expires_delta of
                      Some d \<Rightarrow>
                        (if d \<noteq> 0 then clk 0 + d
                         else clk 0 + timedelta_days (REFRESH_TOKEN_EXPIRE_DAYS st))
                    | None \<Rightarrow> clk 0 + timedelta_days (REFRESH_TOKEN_EXPIRE_DAYS st));
          to_encode = dict_update to_encode
            [(''exp'', VDatetime expire), (''iat'', VDatetime (clk 1)),
             (''token_type'', VStr ''refresh'')]
      in jwt_encode to_encode (JWT_SECRET_KEY st) (JWT_ALGORITHM st))"

definition verify_token :: "settings \<Rightarrow> clock \<Rightarrow> token \<Rightarrow> string \<Rightarrow> py_exn + TokenData" where
  "verify_token st clk tok expected_type =
     (case jwt_decode clk tok (JWT_SECRET_KEY st) [JWT_ALGORITHM st] of
        Inl e \<Rightarrow> Inl (JWTError (CouldNotValidateToken e))
      | Inr payload \<Rightarrow>
          (let uid = dict_get payload ''sub'';
               email = dict_get payload ''email'';
               payload_token_type = dict_get payload ''token_type''
           in if uid = VNone then Inl (JWTError (CouldNotValidateToken TokenMissingSubject))
              else if payload_token_type \<noteq> VStr expected_type
                then Inl (JWTError (CouldNotValidateToken
                                      (InvalidTokenType expected_type payload_token_type)))
              else TokenData_init uid email payload_token_type))"

definition create_password_reset_token :: "settings \<Rightarrow> clock \<Rightarrow> string \<Rightarrow> token" where
  "create_password_reset_token st clk user_email =
     (let expire = clk 0 + timedelta_hours 1;
          to_encode = [(''sub'', VStr user_email), (''exp'', VDatetime expire),
                       (''iat'', VDatetime (clk 1)), (''token_type'', VStr ''password_reset'')]
      in jwt_encode to_encode (JWT_SECRET_KEY st) (JWT_ALGORITHM st))"

definition verify_password_reset_token :: "settings \<Rightarrow> clock \<Rightarrow> token \<Rightarrow> py_exn + string" where
  "verify_password_reset_token st clk tok =
     (case jwt_decode clk tok (JWT_SECRET_KEY st) [JWT_ALGORITHM st] of
        Inl e \<Rightarrow> Inl (JWTError (InvalidOrExpiredResetToken e))
      | Inr payload \<Rightarrow>
          (let email = dict_get payload ''sub'';
               token_type = dict_get payload ''token_type''
           in if email = VNone then Inl (JWTError (InvalidOrExpiredResetToken TokenMissingEmail))
              else if token_type \<noteq> VStr ''password_reset''
                then Inl (JWTError (InvalidOrExpiredResetToken InvalidTypeForPasswordReset))
              else (case email of VStr s \<Rightarrow> Inr s | _ \<Rightarrow> Inl TypeError)))"

text \<open>
  The claims a token carries on the wire, read without any check: \<^verbatim>\<open>exp\<close>
  (the spec's \<open>expires_at\<close>), \<^verbatim>\<open>iat\<close> (\<open>issued_at\<close>) and \<^verbatim>\<open>token_type\<close>.
\<close>

definition expires_at :: "token \<Rightarrow> pyval" where
  "expires_at tok = (case tok of Signed alg k claims \<Rightarrow> dict_get claims ''exp'' | NotAToken s \<Rightarrow> VNone)"

definition issued_at :: "token \<Rightarrow> pyval" where
  "issued_at tok = (case tok of Signed alg k claims \<Rightarrow> dict_get claims ''iat'' | NotAToken s \<Rightarrow> VNone)"

definition embedded_type :: "token \<Rightarrow> pyval" where
  "embedded_type tok =
     (case tok of Signed alg k claims \<Rightarrow> dict_get claims ''token_type'' | NotAToken s \<Rightarrow> VNone)"

text \<open>A clock that shows the same instant at every read.\<close>

definition clock_at :: "datetime \<Rightarrow> clock" where
  "clock_at t = (\<lambda>i. t)"

section \<open>The token blacklist (app/models/token\_blacklist.py)\<close>

text \<open>
  The class attribute \<^verbatim>\<open>_blacklist\<close> is a process-wide \<^verbatim>\<open>set\<close> of token strings;
  the class methods take it and return it updated. \<^verbatim>\<open>add_token\<close> ignores its
  \<^verbatim>\<open>expires_at\<close> argument.
\<close>

type_synonym blacklist = "token set"

definition add_token :: "blacklist \<Rightarrow> token \<Rightarrow> datetime option \<Rightarrow> blacklist" where
  "add_token bl tok expiry = insert tok bl"

definition is_blacklisted :: "blacklist \<Rightarrow> token \<Rightarrow> bool" where
  "is_blacklisted bl tok = (tok \<in> bl)"

definition remove_token :: "blacklist \<Rightarrow> token \<Rightarrow> blacklist" where
  "remove_token bl tok = bl - {tok}"

definition clear_all :: "blacklist \<Rightarrow> blacklist" where
  "clear_all bl = {}"

section \<open>HTTP errors\<close>

text \<open>
  The \<^verbatim>\<open>detail\<close> of an \<^verbatim>\<open>HTTPException\<close> is either a literal text or a literal
  prefix followed by the text of a caught exception (\<^verbatim>\<open>f"...: {str(e)}"\<close>), which
  is kept as the exception itself.
\<close>

datatype detail = Msg string | MsgExc string py_exn

datatype http_exception =
  HTTPException (status_code: nat) (detail: detail) (headers: "(string \<times> string) list")

definition bearer :: "(string \<times> string) list" where
  "bearer = [(''WWW-Authenticate'', ''Bearer'')]"

text \<open>What a \<^verbatim>\<open>try\<close> block can raise: an \<^verbatim>\<open>HTTPException\<close> or any other exception.\<close>

datatype raised = HTTP http_exception | Other py_exn

text \<open>
  The handler pair \<^verbatim>\<open>except HTTPException: raise\<close> /
  \<^verbatim>\<open>except Exception as e: raise HTTPException(status, f"{prefix}{str(e)}")\<close>.
\<close>

fun reraise :: "nat \<Rightarrow> string \<Rightarrow> raised \<Rightarrow> http_exception" where
  "reraise status prefix (HTTP h) = h"
| "reraise status prefix (Other e) = HTTPException status (MsgExc prefix e) []"

section \<open>External collaborators\<close>

text \<open>
  The Firestore collection of users: document id and fields, in the order a query
  returns them.
\<close>

type_synonym collection = "(string \<times> pydict) list"

text \<open>
  What the outside world does in one request. Each Firestore call kind may raise
  (\<open>Some e\<close>); the Firebase Auth calls, the Google verifier and the mail transport
  return or raise as the fields say. \<^verbatim>\<open>hash_password\<close> and \<^verbatim>\<open>verify_password\<close>
  belong to app/utils/password.py, taken here as parameters.
\<close>

record env =
  query_fault :: "py_exn option"
  get_fault :: "py_exn option"
  set_fault :: "py_exn option"
  update_fault :: "py_exn option"
  firebase_create_user :: "pyval \<Rightarrow> py_exn + string"
  firebase_get_user_by_email :: "pyval \<Rightarrow> py_exn + string"
  firebase_get_user :: "string \<Rightarrow> py_exn + bool"
  firebase_update_user :: "string \<Rightarrow> string \<Rightarrow> py_exn option"
  generate_email_verification_link :: "string \<Rightarrow> py_exn + string"
  verify_oauth2_token :: "string \<Rightarrow> string \<Rightarrow> py_exn + pydict"
  smtp_fault :: "py_exn option"
  hash_password :: "string \<Rightarrow> string"
  verify_password :: "string \<Rightarrow> string \<Rightarrow> bool"

text \<open>\<^verbatim>\<open>users_ref.where("email", "==", e).limit(1).get()\<close>, as a list.\<close>

definition where_email :: "env \<Rightarrow> collection \<Rightarrow> pyval \<Rightarrow> py_exn + collection" where
  "where_email ev users e =
     (case query_fault ev of
        Some x \<Rightarrow> Inl x
      | None \<Rightarrow> Inr (take 1 (filter (\<lambda>(i, d). map_of d ''email'' = Some e) users)))"

text \<open>\<^verbatim>\<open>users_ref.document(uid).get()\<close>: the fields, or \<open>None\<close> when \<^verbatim>\<open>exists\<close> is false.\<close>

definition document_get :: "env \<Rightarrow> collection \<Rightarrow> string \<Rightarrow> py_exn + pydict option" where
  "document_get ev users i =
     (case get_fault ev of Some x \<Rightarrow> Inl x | None \<Rightarrow> Inr (map_of users i))"

text \<open>\<^verbatim>\<open>users_ref.document(uid).set(data)\<close> writes the whole document.\<close>

definition document_set :: "env \<Rightarrow> collection \<Rightarrow> string \<Rightarrow> pydict \<Rightarrow> py_exn + collection" where
  "document_set ev users i d =
     (case set_fault ev of Some x \<Rightarrow> Inl x | None \<Rightarrow> Inr (AList.update i d users))"

text \<open>
  \<^verbatim>\<open>users_ref.document(uid).update(fields)\<close> merges the fields into an existing
  document and raises when there is none.
\<close>

definition document_update :: "env \<Rightarrow> collection \<Rightarrow> string \<Rightarrow> pydict \<Rightarrow> py_exn + collection" where
  "document_update ev users i new_fields =
     (case update_fault ev of
        Some x \<Rightarrow> Inl x
      | None \<Rightarrow>
          (case map_of users i of
             None \<Rightarrow> Inl (ServiceError ''NotFound'')
           | Some d \<Rightarrow> Inr (AList.update i (dict_update d new_fields) users)))"

section \<open>Mail (app/utils/email.py)\<close>

text \<open>
  \<^verbatim>\<open>send_email\<close> catches every exception of the transport and returns \<^verbatim>\<open>False\<close>.
  The two templates differ in subject and text only; the link is the one datum they carry.
\<close>

datatype link = VerificationLink string | ResetLink string token

definition send_email :: "env \<Rightarrow> string \<Rightarrow> string \<Rightarrow> link \<Rightarrow> bool" where
  "send_email ev to_email subject body =
     (case smtp_fault ev of Some x \<Rightarrow> False | None \<Rightarrow> True)"

definition send_verification_email :: "env \<Rightarrow> string \<Rightarrow> link \<Rightarrow> bool" where
  "send_verification_email ev to_email verification_link =
     send_email ev to_email ''Verify your SehatGuru account'' verification_link"

definition send_password_reset_email :: "env \<Rightarrow> string \<Rightarrow> link \<Rightarrow> bool" where
  "send_password_reset_email ev to_email reset_link =
     send_email ev to_email ''Reset your SehatGuru password'' reset_link"

section \<open>The session guard (app/middleware/auth.py)\<close>

text \<open>
  \<open>tok\<close> is \<^verbatim>\<open>credentials.credentials\<close>, the bearer token the framework extracted.
  The test \<^verbatim>\<open>token_data.uid is None\<close> after a successful \<^verbatim>\<open>verify_token\<close> never
  holds (\<^verbatim>\<open>uid\<close> is a \<^verbatim>\<open>str\<close> field), so it has no branch here.
\<close>

definition get_current_user :: "blacklist \<Rightarrow> settings \<Rightarrow> clock \<Rightarrow> token \<Rightarrow> http_exception + TokenData" where
  "get_current_user bl st clk tok =
     (if is_blacklisted bl tok
      then Inl (HTTPException 401 (Msg ''Token has been revoked. Please login again.'') bearer)
      else (case verify_token st clk tok ''access'' of
              Inr token_data \<Rightarrow> Inr token_data
            | Inl (JWTError e) \<Rightarrow>
                Inl (HTTPException 401 (MsgExc ''Invalid token: '' (JWTError e)) bearer)
            | Inl e \<Rightarrow>
                Inl (HTTPException 401 (MsgExc ''Authentication error: '' e) bearer)))"

definition verify_refresh_token :: "settings \<Rightarrow> clock \<Rightarrow> token \<Rightarrow> http_exception + TokenData" where
  "verify_refresh_token st clk tok =
     (case verify_token st clk tok ''refresh'' of
        Inr token_data \<Rightarrow> Inr token_data
      | Inl (JWTError e) \<Rightarrow>
          Inl (HTTPException 401 (MsgExc ''Invalid refresh token: '' (JWTError e)) bearer)
      | Inl e \<Rightarrow>
          Inl (HTTPException 401 (MsgExc ''Token verification error: '' e) bearer))"

text \<open>
  The password-change check of \<^verbatim>\<open>get_current_active_user\<close>, from the value of
  \<^verbatim>\<open>current_user.iat\<close> on: \<open>None\<close> when the check passes or is skipped.
\<close>

definition password_change_check :: "pyval \<Rightarrow> pydict \<Rightarrow> raised option" where
  "password_change_check iat user_data =
     (if truthy iat \<and> truthy (dict_get user_data ''password_changed_at'')
      then (case (iat, dict_get user_data ''password_changed_at'') of
              (VInt i, VDatetime password_changed_at) \<Rightarrow>
                (let token_issued_at = utcfromtimestamp i
                 in if password_changed_at > token_issued_at
                    then Some (HTTP (HTTPException 401
                           (Msg ''Your password was changed. Please login again with your new password.'')
                           bearer))
                    else None)
            | _ \<Rightarrow> Some (Other TypeError))
      else None)"

text \<open>
  The best-effort synchronisation of \<^verbatim>\<open>email_verified\<close> from Firebase Auth: every
  exception inside it is swallowed.
\<close>

definition sync_email_verified :: "env \<Rightarrow> clock \<Rightarrow> string \<Rightarrow> pydict \<Rightarrow> collection \<Rightarrow> pydict \<times> collection" where
  "sync_email_verified ev clk i user_data users =
     (case firebase_get_user ev i of
        Inl x \<Rightarrow> (user_data, users)
      | Inr firebase_email_verified \<Rightarrow>
          (if dict_get user_data ''email_verified'' \<noteq> VBool firebase_email_verified
           then (case document_update ev users i
                        [(''email_verified'', VBool firebase_email_verified),
                         (''updated_at'', VDatetime (clk 0))] of
                   Inl x \<Rightarrow> (user_data, users)
                 | Inr users' \<Rightarrow>
                     (AList.update ''email_verified'' (VBool firebase_email_verified) user_data,
                      users'))
           else (user_data, users)))"

definition get_current_active_user_try ::
  "env \<Rightarrow> clock \<Rightarrow> TokenData \<Rightarrow> collection \<Rightarrow> (raised + pydict) \<times> collection" where
  "get_current_active_user_try ev clk current_user users =
     (case document_get ev users (uid current_user) of
        Inl x \<Rightarrow> (Inl (Other x), users)
      | Inr None \<Rightarrow> (Inl (HTTP (HTTPException 404 (Msg ''User not found'') [])), users)
      | Inr (Some doc) \<Rightarrow>
          (let user_data = AList.update ''uid'' (VStr (uid current_user)) doc
           in (case TokenData_getattr current_user ''iat'' of
                 Inl x \<Rightarrow> (Inl (Other x), users)
               | Inr iat \<Rightarrow>
                   (case password_change_check iat user_data of
                      Some r \<Rightarrow> (Inl r, users)
                    | None \<Rightarrow>
                        (case sync_email_verified ev clk (uid current_user) user_data users of
                           (user_data', users') \<Rightarrow> (Inr user_data', users'))))))"

definition get_current_active_user ::
  "env \<Rightarrow> clock \<Rightarrow> TokenData \<Rightarrow> collection \<Rightarrow> (http_exception + pydict) \<times> collection" where
  "get_current_active_user ev clk current_user users =
     (case get_current_active_user_try ev clk current_user users of
        (Inl r, users') \<Rightarrow> (Inl (reraise 500 ''Error fetching user data: '' r), users')
      | (Inr user_data, users') \<Rightarrow> (Inr user_data, users'))"

text \<open>
  \<^verbatim>\<open>Depends(get_current_active_user)\<close>, as the route \<^verbatim>\<open>/me\<close> declares it: the
  framework first resolves \<^verbatim>\<open>get_current_user\<close> on the bearer token, then passes its
  result on. The first clock read is the one of \<^verbatim>\<open>verify_token\<close>.
\<close>

definition depends_get_current_active_user ::
  "blacklist \<Rightarrow> env \<Rightarrow> settings \<Rightarrow> clock \<Rightarrow> token \<Rightarrow> collection \<Rightarrow> (http_exception + pydict) \<times> collection" where
  "depends_get_current_active_user bl ev st clk tok users =
     (case get_current_user bl st clk tok of
        Inl h \<Rightarrow> (Inl h, users)
      | Inr current_user \<Rightarrow> get_current_active_user ev (clock_after 1 clk) current_user users)"

section \<open>The authentication service (app/services/auth\_service.py)\<close>

text \<open>
  The response model \<^verbatim>\<open>Token\<close> of app/models/auth.py; its field \<^verbatim>\<open>token_type\<close>
  (always \<^verbatim>\<open>"bearer"\<close>) is \<open>scheme\<close> here.
\<close>

datatype Token =
  Token (access_token: token) (refresh_token: token) (scheme: string) (expires_in: int)

record MessageResponse =
  message :: string
  success :: bool

text \<open>
  \<^verbatim>\<open>register_user\<close>. The arguments are the fields of \<^verbatim>\<open>UserRegister\<close>. The block
  that generates and sends the verification mail swallows every exception and its result
  is not used, so it leaves no trace in the value returned or in the collection. The
  \<^verbatim>\<open>email\<close> returned is the one of the Firebase Auth record just created for
  \<^verbatim>\<open>user_data.email\<close>.
\<close>

definition register_user_try ::
  "env \<Rightarrow> clock \<Rightarrow> string \<Rightarrow> string \<Rightarrow> string \<Rightarrow> collection \<Rightarrow> (raised + pydict) \<times> collection" where
  "register_user_try ev clk full_name user_email password users =
     (case where_email ev users (VStr user_email) of
        Inl x \<Rightarrow> (Inl (Other x), users)
      | Inr existing_user \<Rightarrow>
          if length existing_user > 0
          then (Inl (HTTP (HTTPException 400 (Msg ''Email already registered'') [])), users)
          else (case firebase_create_user ev (VStr user_email) of
                  Inl x \<Rightarrow> (Inl (Other x), users)
                | Inr firebase_uid \<Rightarrow>
                    (let hashed_password = hash_password ev password;
                         now = clk 0;
                         user_doc_data =
                           [(''email'', VStr user_email),
                            (''full_name'', VStr full_name),
                            (''email_verified'', VBool False),
                            (''created_at'', VDatetime now),
                            (''updated_at'', VDatetime now),
                            (''auth_provider'', VStr ''email''),
                            (''hashed_password'', VStr hashed_password),
                            (''password_changed_at'', VDatetime now)]
                     in (case document_set ev users firebase_uid user_doc_data of
                           Inl x \<Rightarrow> (Inl (Other x), users)
                         | Inr users' \<Rightarrow>
                             (Inr [(''uid'', VStr firebase_uid),
                                   (''email'', VStr user_email),
                                   (''full_name'', VStr full_name),
                                   (''email_verified'', VBool False),
                                   (''created_at'', dict_get user_doc_data ''created_at'')],
                              users')))))"

definition register_user ::
  "env \<Rightarrow> clock \<Rightarrow> string \<Rightarrow> string \<Rightarrow> string \<Rightarrow> collection \<Rightarrow> (http_exception + pydict) \<times> collection" where
  "register_user ev clk full_name user_email password users =
     (case register_user_try ev clk full_name user_email password users of
        (Inl r, users') \<Rightarrow> (Inl (reraise 500 ''Registration failed: '' r), users')
      | (Inr user, users') \<Rightarrow> (Inr user, users'))"

text \<open>\<^verbatim>\<open>login_user\<close>. The arguments are the fields of \<^verbatim>\<open>UserLogin\<close>.\<close>

definition login_user_try ::
  "env \<Rightarrow> settings \<Rightarrow> clock \<Rightarrow> string \<Rightarrow> string \<Rightarrow> collection \<Rightarrow> (raised + Token) \<times> collection" where
  "login_user_try ev st clk user_email password users =
     (case where_email ev users (VStr user_email) of
        Inl x \<Rightarrow> (Inl (Other x), users)
      | Inr [] \<Rightarrow> (Inl (HTTP (HTTPException 401 (Msg ''Invalid email or password'') [])), users)
      | Inr ((i, user_data) # rest) \<Rightarrow>
          (let stored_password = dict_get user_data ''hashed_password''
           in if \<not> truthy stored_password
              then (if dict_get user_data ''auth_provider'' = VStr ''google''
                    then (Inl (HTTP (HTTPException 400
                            (Msg ''This account uses Google Sign-In. Please login with Google.'') [])),
                          users)
                    else (Inl (HTTP (HTTPException 401 (Msg ''Invalid email or password'') [])),
                          users))
              else (case stored_password of
                      VStr h \<Rightarrow>
                        if \<not> verify_password ev password h
                        then (Inl (HTTP (HTTPException 401 (Msg ''Invalid email or password'') [])),
                              users)
                        else (case document_update ev users i
                                     [(''last_login'', VDatetime (clk 0)),
                                      (''updated_at'', VDatetime (clk 1))] of
                                Inl x \<Rightarrow> (Inl (Other x), users)
                              | Inr users' \<Rightarrow>
                                  (let token_data = [(''sub'', VStr i), (''email'', VStr user_email)];
                                       access = create_access_token st (clock_after 2 clk) token_data None;
                                       refresh = create_refresh_token st (clock_after 4 clk) token_data None
                                   in (Inr (Token access refresh ''bearer''
                                              (ACCESS_TOKEN_EXPIRE_MINUTES st * 60)),
                                       users')))
                    | _ \<Rightarrow> (Inl (Other TypeError), users))))"

definition login_user ::
  "env \<Rightarrow> settings \<Rightarrow> clock \<Rightarrow> string \<Rightarrow> string \<Rightarrow> collection \<Rightarrow> (http_exception + Token) \<times> collection" where
  "login_user ev st clk user_email password users =
     (case login_user_try ev st clk user_email password users of
        (Inl r, users') \<Rightarrow> (Inl (reraise 500 ''Login failed: '' r), users')
      | (Inr t, users') \<Rightarrow> (Inr t, users'))"

text \<open>
  \<^verbatim>\<open>google_auth\<close>. When \<^verbatim>\<open>create_user\<close> fails, the account is looked up in Firebase
  Auth by email; when that fails too, the first exception is raised.
\<close>

definition google_auth_try ::
  "env \<Rightarrow> settings \<Rightarrow> clock \<Rightarrow> string \<Rightarrow> collection \<Rightarrow> (raised + Token) \<times> collection" where
  "google_auth_try ev st clk id_token_str users =
     (case verify_oauth2_token ev id_token_str (GOOGLE_CLIENT_ID st) of
        Inl x \<Rightarrow> (Inl (Other x), users)
      | Inr idinfo \<Rightarrow>
          (let g_email = dict_get idinfo ''email'';
               name = dict_get idinfo ''name'';
               google_uid = dict_get idinfo ''sub'';
               picture = dict_get idinfo ''picture''
           in if \<not> truthy g_email
              then (Inl (HTTP (HTTPException 400 (Msg ''Email not provided by Google'') [])), users)
              else (case where_email ev users g_email of
                      Inl x \<Rightarrow> (Inl (Other x), users)
                    | Inr ((i, user_data) # rest) \<Rightarrow>
                        (case document_update ev users i [(''updated_at'', VDatetime (clk 0))] of
                           Inl x \<Rightarrow> (Inl (Other x), users)
                         | Inr users' \<Rightarrow>
                             (let token_data = [(''sub'', VStr i), (''email'', g_email)];
                                  access = create_access_token st (clock_after 1 clk) token_data None;
                                  refresh = create_refresh_token st (clock_after 3 clk) token_data None
                              in (Inr (Token access refresh ''bearer''
                                         (ACCESS_TOKEN_EXPIRE_MINUTES st * 60)),
                                  users')))
                    | Inr [] \<Rightarrow>
                        (case (case firebase_create_user ev g_email of
                                 Inr i \<Rightarrow> Inr i
                               | Inl x \<Rightarrow>
                                   (case firebase_get_user_by_email ev g_email of
                                      Inr i \<Rightarrow> Inr i
                                    | Inl y \<Rightarrow> Inl x)) of
                           Inl x \<Rightarrow> (Inl (Other x), users)
                         | Inr i \<Rightarrow>
                             (let user_doc_data =
                                    [(''email'', g_email),
                                     (''full_name'', name),
                                     (''email_verified'', VBool True),
                                     (''created_at'', VDatetime (clk 0)),
                                     (''updated_at'', VDatetime (clk 1)),
                                     (''auth_provider'', VStr ''google''),
                                     (''photo_url'', picture),
                                     (''google_uid'', google_uid)]
                              in (case document_set ev users i user_doc_data of
                                    Inl x \<Rightarrow> (Inl (Other x), users)
                                  | Inr users' \<Rightarrow>
                                      (let token_data = [(''sub'', VStr i), (''email'', g_email)];
                                           access = create_access_token st (clock_after 2 clk)
                                                      token_data None;
                                           refresh = create_refresh_token st (clock_after 4 clk)
                                                       token_data None
                                       in (Inr (Token access refresh ''bearer''
                                                  (ACCESS_TOKEN_EXPIRE_MINUTES st * 60)),
                                           users'))))))))"

definition google_auth ::
  "env \<Rightarrow> settings \<Rightarrow> clock \<Rightarrow> string \<Rightarrow> collection \<Rightarrow> (http_exception + Token) \<times> collection" where
  "google_auth ev st clk id_token_str users =
     (case google_auth_try ev st clk id_token_str users of
        (Inl r, users') \<Rightarrow> (Inl (reraise 401 ''Google authentication failed: '' r), users')
      | (Inr t, users') \<Rightarrow> (Inr t, users'))"

definition refresh_access_token :: "settings \<Rightarrow> clock \<Rightarrow> string \<Rightarrow> string option \<Rightarrow> Token" where
  "refresh_access_token st clk i mail =
     (let token_data = [(''sub'', VStr i),
                        (''email'', (case mail of None \<Rightarrow> VNone | Some m \<Rightarrow> VStr m))];
          access = create_access_token st clk token_data None;
          refresh = create_refresh_token st (clock_after 2 clk) token_data None
      in Token access refresh ''bearer'' (ACCESS_TOKEN_EXPIRE_MINUTES st * 60))"

text \<open>
  \<^verbatim>\<open>request_password_reset\<close>: the \<^verbatim>\<open>try\<close> block, then the function with its handler
  \<^verbatim>\<open>except Exception: return True\<close>.
\<close>

definition request_password_reset_try ::
  "env \<Rightarrow> settings \<Rightarrow> clock \<Rightarrow> string \<Rightarrow> collection \<Rightarrow> py_exn + bool" where
  "request_password_reset_try ev st clk user_email users =
     (case where_email ev users (VStr user_email) of
        Inl x \<Rightarrow> Inl x
      | Inr user_query \<Rightarrow>
          if length user_query = 0 then Inr True
          else (let reset_token = create_password_reset_token st clk user_email;
                    reset_link = ResetLink (FRONTEND_URL st @ ''/reset-password?token='') reset_token;
                    sent = send_password_reset_email ev user_email reset_link
                in Inr True))"

definition request_password_reset ::
  "env \<Rightarrow> settings \<Rightarrow> clock \<Rightarrow> string \<Rightarrow> collection \<Rightarrow> py_exn + bool" where
  "request_password_reset ev st clk user_email users =
     (case request_password_reset_try ev st clk user_email users of
        Inl x \<Rightarrow> Inr True
      | Inr b \<Rightarrow> Inr b)"

text \<open>
  \<^verbatim>\<open>reset_password\<close>. Clock read 0 is the one of the token check, read 1 is
  \<^verbatim>\<open>now = datetime.utcnow()\<close>.
\<close>

definition reset_password_try ::
  "env \<Rightarrow> settings \<Rightarrow> clock \<Rightarrow> token \<Rightarrow> string \<Rightarrow> collection \<Rightarrow> (raised + bool) \<times> collection" where
  "reset_password_try ev st clk tok new_password users =
     (case verify_password_reset_token st clk tok of
        Inl x \<Rightarrow> (Inl (Other x), users)
      | Inr user_email \<Rightarrow>
          (case where_email ev users (VStr user_email) of
             Inl x \<Rightarrow> (Inl (Other x), users)
           | Inr [] \<Rightarrow> (Inl (HTTP (HTTPException 404 (Msg ''User not found'') [])), users)
           | Inr ((i, user_data) # rest) \<Rightarrow>
               if dict_get user_data ''auth_provider'' = VStr ''google''
               then (Inl (HTTP (HTTPException 400
                       (Msg ''This account uses Google Sign-In. Password cannot be reset.'') [])),
                     users)
               else (case firebase_update_user ev i new_password of
                       Some x \<Rightarrow> (Inl (Other x), users)
                     | None \<Rightarrow>
                         (let now = clk 1;
                              new_hashed_password = hash_password ev new_password
                          in (case document_update ev users i
                                     [(''hashed_password'', VStr new_hashed_password),
                                      (''password_changed_at'', VDatetime now),
                                      (''updated_at'', VDatetime now)] of
                                Inl x \<Rightarrow> (Inl (Other x), users)
                              | Inr users' \<Rightarrow> (Inr True, users'))))))"

definition reset_password ::
  "env \<Rightarrow> settings \<Rightarrow> clock \<Rightarrow> token \<Rightarrow> string \<Rightarrow> collection \<Rightarrow> (http_exception + bool) \<times> collection" where
  "reset_password ev st clk tok new_password users =
     (case reset_password_try ev st clk tok new_password users of
        (Inl r, users') \<Rightarrow> (Inl (reraise 400 ''Password reset failed: '' r), users')
      | (Inr b, users') \<Rightarrow> (Inr b, users'))"

section \<open>Routes (app/routes/auth.py)\<close>

definition forgot_password ::
  "env \<Rightarrow> settings \<Rightarrow> clock \<Rightarrow> string \<Rightarrow> collection \<Rightarrow> py_exn + MessageResponse" where
  "forgot_password ev st clk user_email users =
     (case request_password_reset ev st clk user_email users of
        Inl x \<Rightarrow> Inl x
      | Inr b \<Rightarrow>
          Inr \<lparr> message = ''If the email exists, a password reset link has been sent.'',
                success = True \<rparr>)"

text \<open>\<^verbatim>\<open>logout\<close> takes the bearer token as it is, without verifying it.\<close>

definition logout :: "blacklist \<Rightarrow> token \<Rightarrow> MessageResponse \<times> blacklist" where
  "logout bl tok =
     (\<lparr> message = ''Logged out successfully. Token has been revoked.'', success = True \<rparr>,
      add_token bl tok None)"

text \<open>A run of later revocations: the tokens presented at the logouts that follow.\<close>

fun add_tokens :: "blacklist \<Rightarrow> token list \<Rightarrow> blacklist" where
  "add_tokens bl [] = bl"
| "add_tokens bl (t # ts) = add_tokens (add_token bl t None) ts"

section \<open>A concrete deployment\<close>

text \<open>
  An environment in which every external call succeeds, and a collection with one local
  account (password last changed at second 10) and one Google account.
\<close>

definition quiet_env :: env where
  "quiet_env =
     \<lparr> query_fault = None, get_fault = None, set_fault = None, update_fault = None,
       firebase_create_user = (\<lambda>e. Inr ''n1''),
       firebase_get_user_by_email = (\<lambda>e. Inr ''n1''),
       firebase_get_user = (\<lambda>i. Inr False),
       firebase_update_user = (\<lambda>i p. None),
       generate_email_verification_link = (\<lambda>e. Inr ''https://verify''),
       verify_oauth2_token =
         (\<lambda>t c. Inr [(''email'', VStr ''new@x.y''), (''name'', VStr ''New''),
                      (''sub'', VStr ''g-2''), (''picture'', VNone)]),
       smtp_fault = None,
       hash_password = (\<lambda>p. ''#'' @ p),
       verify_password = (\<lambda>p h. h = ''#'' @ p) \<rparr>"

definition local_account :: pydict where
  "local_account =
     [(''email'', VStr ''a@b.c''), (''full_name'', VStr ''A''),
      (''email_verified'', VBool False), (''created_at'', VDatetime 0),
      (''updated_at'', VDatetime 10000000), (''auth_provider'', VStr ''email''),
      (''hashed_password'', VStr ''#oldpass''),
      (''password_changed_at'', VDatetime 10000000)]"

definition google_account :: pydict where
  "google_account =
     [(''email'', VStr ''g@x.y''), (''full_name'', VStr ''G''),
      (''email_verified'', VBool True), (''created_at'', VDatetime 0),
      (''updated_at'', VDatetime 0), (''auth_provider'', VStr ''google''),
      (''photo_url'', VNone), (''google_uid'', VStr ''g-1'')]"

definition sample_users :: collection where
  "sample_users = [(''u1'', local_account), (''g1'', google_account)]"

section \<open>Issued tokens and their verification\<close>

text \<open>
  The payload \<^verbatim>\<open>{"sub": uid, "email": email}\<close> is the \<^verbatim>\<open>token_data\<close> that
  \<^verbatim>\<open>login_user\<close>, \<^verbatim>\<open>google_auth\<close> and \<^verbatim>\<open>refresh_access_token\<close> build. The
  first three lemmas give the wire form of the tokens issued for it.
\<close>

lemma issued_access:
  "create_access_token st clk [(''sub'', VStr u), (''email'', VStr e)] delta =
     Signed (JWT_ALGORITHM st) (JWT_SECRET_KEY st)
       [(''sub'', VStr u), (''email'', VStr e),
        (''exp'', VInt (timegm (case delta of
                      Some d \<Rightarrow>
                        (if d \<noteq> 0 then clk 0 + d
                         else clk 0 + timedelta_minutes (ACCESS_TOKEN_EXPIRE_MINUTES st))
                    | None \<Rightarrow> clk 0 + timedelta_minutes (ACCESS_TOKEN_EXPIRE_MINUTES st)))),
        (''iat'', VInt (timegm (clk 1))), (''token_type'', VStr ''access'')]"
  by (simp add: create_access_token_def dict_update_def jwt_encode_def intdate_def)

lemma issued_refresh:
  "create_refresh_token st clk [(''sub'', VStr u), (''email'', VStr e)] delta =
     Signed (JWT_ALGORITHM st) (JWT_SECRET_KEY st)
       [(''sub'', VStr u), (''email'', VStr e),
        (''exp'', VInt (timegm (case delta of
                      Some d \<Rightarrow>
                        (if d \<noteq> 0 then clk 0 + d
                         else clk 0 + timedelta_days (REFRESH_TOKEN_EXPIRE_DAYS st))
                    | None \<Rightarrow> clk 0 + timedelta_days (REFRESH_TOKEN_EXPIRE_DAYS st)))),
        (''iat'', VInt (timegm (clk 1))), (''token_type'', VStr ''refresh'')]"
  by (simp add: create_refresh_token_def dict_update_def jwt_encode_def intdate_def)

lemma issued_reset:
  "create_password_reset_token st clk e =
     Signed (JWT_ALGORITHM st) (JWT_SECRET_KEY st)
       [(''sub'', VStr e), (''exp'', VInt (timegm (clk 0 + timedelta_hours 1))),
        (''iat'', VInt (timegm (clk 1))), (''token_type'', VStr ''password_reset'')]"
  by (simp add: create_password_reset_token_def jwt_encode_def intdate_def)

lemma verify_signed_ok:
  assumes "map_of p ''exp'' = Some (VInt x)" "timegm (vclk 0) \<le> x"
    and "map_of p ''sub'' = Some (VStr u)"
    and "map_of p ''email'' = Some (VStr e)"
    and "map_of p ''token_type'' = Some (VStr k)"
  shows "verify_token st vclk (Signed (JWT_ALGORITHM st) (JWT_SECRET_KEY st) p) k
         = Inr \<lparr> uid = u, email = Some e, token_type = k \<rparr>"
  using assms
  by (simp add: verify_token_def jwt_decode_def validate_exp_def validate_sub_def dict_get_def
      TokenData_init_def)

lemma verify_signed_expired:
  assumes "map_of p ''exp'' = Some (VInt x)" "x < timegm (vclk 0)"
  shows "verify_token st vclk (Signed (JWT_ALGORITHM st) (JWT_SECRET_KEY st) p) k
         = Inl (JWTError (CouldNotValidateToken SignatureHasExpired))"
  using assms by (simp add: verify_token_def jwt_decode_def validate_exp_def)

lemma verify_signed_wrong_type:
  assumes "map_of p ''exp'' = Some (VInt x)" "timegm (vclk 0) \<le> x"
    and "map_of p ''sub'' = Some (VStr u)"
    and "dict_get p ''token_type'' \<noteq> VStr k"
  shows "verify_token st vclk (Signed (JWT_ALGORITHM st) (JWT_SECRET_KEY st) p) k
         = Inl (JWTError (CouldNotValidateToken (InvalidTokenType k (dict_get p ''token_type''))))"
  using assms
  by (simp add: verify_token_def jwt_decode_def validate_exp_def validate_sub_def dict_get_def)

lemma expires_at_access:
  "expires_at (create_access_token st clk [(''sub'', VStr u), (''email'', VStr e)] None)
     = VInt (timegm (clk 0 + timedelta_minutes (ACCESS_TOKEN_EXPIRE_MINUTES st)))"
  by (simp add: issued_access expires_at_def dict_get_def)

lemma expires_at_refresh:
  "expires_at (create_refresh_token st clk [(''sub'', VStr u), (''email'', VStr e)] None)
     = VInt (timegm (clk 0 + timedelta_days (REFRESH_TOKEN_EXPIRE_DAYS st)))"
  by (simp add: issued_refresh expires_at_def dict_get_def)

text \<open>
  Claim C2. For both kinds, access and refresh, and every subject \<open>u\<close> with email \<open>e\<close>:
  a token issued for them, verified against the same kind at any clock reading that is
  not past the token's \<^verbatim>\<open>exp\<close> claim (in whole seconds), is accepted, and the
  \<^verbatim>\<open>TokenData\<close> returned carries the original subject and email. The lifetime may be
  the configured one or an explicit \<^verbatim>\<open>expires_delta\<close>.
\<close>

theorem issued_token_verifies:
  "(expires_at (create_access_token st clk [(''sub'', VStr u), (''email'', VStr e)] delta) = VInt x
      \<longrightarrow> timegm (vclk 0) \<le> x
      \<longrightarrow> verify_token st vclk
            (create_access_token st clk [(''sub'', VStr u), (''email'', VStr e)] delta) ''access''
          = Inr \<lparr> uid = u, email = Some e, token_type = ''access'' \<rparr>)
   \<and> (expires_at (create_refresh_token st clk [(''sub'', VStr u), (''email'', VStr e)] delta) = VInt y
      \<longrightarrow> timegm (vclk 0) \<le> y
      \<longrightarrow> verify_token st vclk
            (create_refresh_token st clk [(''sub'', VStr u), (''email'', VStr e)] delta) ''refresh''
          = Inr \<lparr> uid = u, email = Some e, token_type = ''refresh'' \<rparr>)"
proof (intro conjI impI)
  assume "expires_at (create_access_token st clk [(''sub'', VStr u), (''email'', VStr e)] delta) = VInt x"
    and "timegm (vclk 0) \<le> x"
  then show "verify_token st vclk
            (create_access_token st clk [(''sub'', VStr u), (''email'', VStr e)] delta) ''access''
          = Inr \<lparr> uid = u, email = Some e, token_type = ''access'' \<rparr>"
    unfolding issued_access by (intro verify_signed_ok) (simp_all add: expires_at_def dict_get_def)
next
  assume "expires_at (create_refresh_token st clk [(''sub'', VStr u), (''email'', VStr e)] delta) = VInt y"
    and "timegm (vclk 0) \<le> y"
  then show "verify_token st vclk
            (create_refresh_token st clk [(''sub'', VStr u), (''email'', VStr e)] delta) ''refresh''
          = Inr \<lparr> uid = u, email = Some e, token_type = ''refresh'' \<rparr>"
    unfolding issued_refresh by (intro verify_signed_ok) (simp_all add: expires_at_def dict_get_def)
qed

theorem issued_token_verifies_witness:
  "expires_at (create_access_token (default_settings ''secret'') (clock_at 0)
       [(''sub'', VStr ''u1''), (''email'', VStr ''a@b.c'')] None) = VInt 1800
   \<and> timegm (clock_at 1740000000 0) \<le> 1800
   \<and> verify_token (default_settings ''secret'') (clock_at 1740000000)
        (create_access_token (default_settings ''secret'') (clock_at 0)
           [(''sub'', VStr ''u1''), (''email'', VStr ''a@b.c'')] None) ''access''
      = Inr \<lparr> uid = ''u1'', email = Some ''a@b.c'', token_type = ''access'' \<rparr>
   \<and> expires_at (create_refresh_token (default_settings ''secret'') (clock_at 0)
       [(''sub'', VStr ''u1''), (''email'', VStr ''a@b.c'')] None) = VInt 604800
   \<and> timegm (clock_at 1740000000 0) \<le> 604800
   \<and> verify_token (default_settings ''secret'') (clock_at 1740000000)
        (create_refresh_token (default_settings ''secret'') (clock_at 0)
           [(''sub'', VStr ''u1''), (''email'', VStr ''a@b.c'')] None) ''refresh''
      = Inr \<lparr> uid = ''u1'', email = Some ''a@b.c'', token_type = ''refresh'' \<rparr>"
proof -
  have a: "expires_at (create_access_token (default_settings ''secret'') (clock_at 0)
       [(''sub'', VStr ''u1''), (''email'', VStr ''a@b.c'')] None) = VInt 1800"
    by (simp add: expires_at_access default_settings_def clock_at_def timegm_def timedelta_minutes_def)
  have r: "expires_at (create_refresh_token (default_settings ''secret'') (clock_at 0)
       [(''sub'', VStr ''u1''), (''email'', VStr ''a@b.c'')] None) = VInt 604800"
    by (simp add: expires_at_refresh default_settings_def clock_at_def timegm_def timedelta_days_def)
  have t: "timegm (clock_at 1740000000 0) \<le> 1800" "timegm (clock_at 1740000000 0) \<le> 604800"
    by (simp_all add: clock_at_def timegm_def)
  from issued_token_verifies [of "default_settings ''secret''" "clock_at 0" "''u1''" "''a@b.c''"
      None 1800 "clock_at 1740000000" 604800] a r t
  show ?thesis by blast
qed

lemma signed_token_failures:
  assumes "map_of p ''exp'' = Some (VInt x)" and "map_of p ''sub'' = Some (VStr u)"
    and "tok = Signed (JWT_ALGORITHM st) (JWT_SECRET_KEY st) p"
  shows "expires_at tok = VInt x
     \<and> (x < timegm (vclk 0) \<longrightarrow>
          verify_token st vclk tok kind = Inl (JWTError (CouldNotValidateToken SignatureHasExpired)))
     \<and> (timegm (vclk 0) \<le> x \<longrightarrow> embedded_type tok \<noteq> VStr kind \<longrightarrow>
          verify_token st vclk tok kind
            = Inl (JWTError (CouldNotValidateToken (InvalidTokenType kind (embedded_type tok)))))"
proof (intro conjI impI)
  show "expires_at tok = VInt x"
    using assms by (simp add: expires_at_def dict_get_def)
next
  assume "x < timegm (vclk 0)"
  with assms show "verify_token st vclk tok kind
      = Inl (JWTError (CouldNotValidateToken SignatureHasExpired))"
    by (simp add: verify_signed_expired)
next
  assume "timegm (vclk 0) \<le> x" and "embedded_type tok \<noteq> VStr kind"
  with assms show "verify_token st vclk tok kind
      = Inl (JWTError (CouldNotValidateToken (InvalidTokenType kind (embedded_type tok))))"
    by (simp add: verify_signed_wrong_type embedded_type_def)
qed

text \<open>
  Claim C3 (as amended). For every token this program issues (access, refresh or
  password reset) the \<^verbatim>\<open>exp\<close> claim is an integer \<open>x\<close>, and verification against
  any expected kind fails with "Signature has expired" when the verification time, in
  whole seconds, is past \<open>x\<close>; when it is not past \<open>x\<close> and the embedded
  \<^verbatim>\<open>token_type\<close> differs from the expected kind, verification fails with "Invalid token
  type", naming the expected and the embedded type. Expiry is settled first, inside the
  library's \<^verbatim>\<open>decode\<close>.
\<close>

theorem issued_token_failures:
  assumes "tok = create_access_token st clk [(''sub'', VStr u), (''email'', VStr e)] delta
         \<or> tok = create_refresh_token st clk [(''sub'', VStr u), (''email'', VStr e)] delta
         \<or> tok = create_password_reset_token st clk e"
  shows "\<exists>x. expires_at tok = VInt x
     \<and> (x < timegm (vclk 0) \<longrightarrow>
          verify_token st vclk tok kind = Inl (JWTError (CouldNotValidateToken SignatureHasExpired)))
     \<and> (timegm (vclk 0) \<le> x \<longrightarrow> embedded_type tok \<noteq> VStr kind \<longrightarrow>
          verify_token st vclk tok kind
            = Inl (JWTError (CouldNotValidateToken (InvalidTokenType kind (embedded_type tok)))))"
  using assms
proof (elim disjE)
  assume "tok = create_access_token st clk [(''sub'', VStr u), (''email'', VStr e)] delta"
  then show ?thesis
    unfolding issued_access by (intro exI signed_token_failures [where u = u]) simp_all
next
  assume "tok = create_refresh_token st clk [(''sub'', VStr u), (''email'', VStr e)] delta"
  then show ?thesis
    unfolding issued_refresh by (intro exI signed_token_failures [where u = u]) simp_all
next
  assume "tok = create_password_reset_token st clk e"
  then show ?thesis
    unfolding issued_reset by (intro exI signed_token_failures [where u = e]) simp_all
qed

theorem issued_token_failures_witness:
  "verify_token (default_settings ''secret'') (clock_at 700000000000)
        (create_refresh_token (default_settings ''secret'') (clock_at 0)
           [(''sub'', VStr ''u1''), (''email'', VStr ''a@b.c'')] None) ''refresh''
      = Inl (JWTError (CouldNotValidateToken SignatureHasExpired))
   \<and> verify_token (default_settings ''secret'') (clock_at 60000000)
        (create_refresh_token (default_settings ''secret'') (clock_at 0)
           [(''sub'', VStr ''u1''), (''email'', VStr ''a@b.c'')] None) ''access''
      = Inl (JWTError (CouldNotValidateToken (InvalidTokenType ''access'' (VStr ''refresh''))))"
proof -
  let ?S = "default_settings ''secret''"
  let ?T = "create_refresh_token ?S (clock_at 0) [(''sub'', VStr ''u1''), (''email'', VStr ''a@b.c'')] None"
  have x: "expires_at ?T = VInt 604800"
    by (simp add: expires_at_refresh default_settings_def clock_at_def timegm_def timedelta_days_def)
  have ty: "embedded_type ?T = VStr ''refresh''"
    by (simp add: issued_refresh embedded_type_def dict_get_def)
  have late: "(604800::int) < timegm (clock_at 700000000000 0)"
    by (simp add: clock_at_def timegm_def)
  have early: "timegm (clock_at 60000000 0) \<le> (604800::int)"
    by (simp add: clock_at_def timegm_def)
  have d: "?T = create_access_token ?S (clock_at 0) [(''sub'', VStr ''u1''), (''email'', VStr ''a@b.c'')] None
         \<or> ?T = create_refresh_token ?S (clock_at 0) [(''sub'', VStr ''u1''), (''email'', VStr ''a@b.c'')] None
         \<or> ?T = create_password_reset_token ?S (clock_at 0) ''a@b.c''"
    by simp
  from issued_token_failures [OF d, of "clock_at 700000000000" "''refresh''"] x late
  have 1: "verify_token ?S (clock_at 700000000000) ?T ''refresh''
      = Inl (JWTError (CouldNotValidateToken SignatureHasExpired))"
    by auto
  from issued_token_failures [OF d, of "clock_at 60000000" "''access''"] x early ty
  have 2: "verify_token ?S (clock_at 60000000) ?T ''access''
      = Inl (JWTError (CouldNotValidateToken (InvalidTokenType ''access'' (VStr ''refresh''))))"
    by auto
  from 1 2 show ?thesis by simp
qed

text \<open>
  The claim C3 as written asks for the wrong-type failure whenever the embedded type
  differs. A refresh token issued at second 0 (seven days of life) and presented as an
  access token at second 700000 has the wrong type and yet fails as expired.
\<close>

theorem expired_wrong_type_counterexample:
  "embedded_type (create_refresh_token (default_settings ''secret'') (clock_at 0)
       [(''sub'', VStr ''u1''), (''email'', VStr ''a@b.c'')] None) = VStr ''refresh''
   \<and> VStr ''refresh'' \<noteq> VStr ''access''
   \<and> verify_token (default_settings ''secret'') (clock_at 700000000000)
        (create_refresh_token (default_settings ''secret'') (clock_at 0)
           [(''sub'', VStr ''u1''), (''email'', VStr ''a@b.c'')] None) ''access''
      = Inl (JWTError (CouldNotValidateToken SignatureHasExpired))
   \<and> verify_token (default_settings ''secret'') (clock_at 700000000000)
        (create_refresh_token (default_settings ''secret'') (clock_at 0)
           [(''sub'', VStr ''u1''), (''email'', VStr ''a@b.c'')] None) ''access''
      \<noteq> Inl (JWTError (CouldNotValidateToken (InvalidTokenType ''access'' (VStr ''refresh''))))"
  by (simp add: issued_refresh embedded_type_def dict_get_def verify_token_def jwt_decode_def
      validate_exp_def default_settings_def clock_at_def timegm_def timedelta_days_def)

section \<open>Revocation\<close>

lemma add_tokens_keeps: "is_blacklisted bl tok \<Longrightarrow> is_blacklisted (add_tokens bl ts) tok"
  by (induction ts arbitrary: bl) (auto simp: is_blacklisted_def add_token_def)

text \<open>
  Claim C4. Once a token has been added to the blacklist, the session guard rejects that
  very token with the 401 "Token has been revoked" error, at once and after any number of
  further revocations, whatever the token, the settings and the clock are; this holds for
  \<^verbatim>\<open>get_current_user\<close> and for the chain that ends in \<^verbatim>\<open>get_current_active_user\<close>.
  Adding the same token a second time leaves the blacklist as it was after the first time.
  The program writes to the blacklist in one place only, the \<^verbatim>\<open>add_token\<close> of
  \<^verbatim>\<open>logout\<close>; \<^verbatim>\<open>remove_token\<close> and \<^verbatim>\<open>clear_all\<close> have no caller.
\<close>

theorem revoked_token_rejected:
  "get_current_user (add_tokens (add_token bl tok e) later) st clk tok
     = Inl (HTTPException 401 (Msg ''Token has been revoked. Please login again.'') bearer)
   \<and> fst (depends_get_current_active_user (add_tokens (add_token bl tok e) later) ev st clk tok users)
     = Inl (HTTPException 401 (Msg ''Token has been revoked. Please login again.'') bearer)
   \<and> add_token (add_token bl tok e) tok e' = add_token bl tok e"
proof -
  have "is_blacklisted (add_tokens (add_token bl tok e) later) tok"
    by (rule add_tokens_keeps) (simp add: is_blacklisted_def add_token_def)
  then show ?thesis
    by (simp add: get_current_user_def depends_get_current_active_user_def add_token_def)
qed

section \<open>Logout and the refresh token\<close>

lemma login_user_tokens:
  assumes "login_user ev st clk e pw users = (Inr (Token access refresh sch ttl), users')"
  shows "\<exists>i \<in> fst ` set users.
           access = create_access_token st (clock_after 2 clk) [(''sub'', VStr i), (''email'', VStr e)] None
         \<and> refresh = create_refresh_token st (clock_after 4 clk) [(''sub'', VStr i), (''email'', VStr e)] None"
proof -
  from assms obtain i d rest where
    q: "where_email ev users (VStr e) = Inr ((i, d) # rest)"
    and t: "access = create_access_token st (clock_after 2 clk) [(''sub'', VStr i), (''email'', VStr e)] None"
       "refresh = create_refresh_token st (clock_after 4 clk) [(''sub'', VStr i), (''email'', VStr e)] None"
    by (auto simp: login_user_def login_user_try_def Let_def
        split: sum.splits list.splits if_splits pyval.splits prod.splits)
  from q have "(i, d) \<in> set (take 1 (filter (\<lambda>(i, d). map_of d ''email'' = Some (VStr e)) users))"
    by (auto simp: where_email_def split: option.splits)
  then have "(i, d) \<in> set users"
    by (auto dest: in_set_takeD)
  then have "i \<in> fst ` set users" by force
  with t show ?thesis by blast
qed

text \<open>
  Claim C5. After a login that returned an access token and a refresh token, a logout
  with the access token adds exactly that token to the blacklist, and the guard then
  rejects it as revoked. The paired refresh token still passes \<^verbatim>\<open>verify_refresh_token\<close>
  at any time not past its \<^verbatim>\<open>exp\<close>, and yields the uid and email of the login.
  \<^verbatim>\<open>verify_refresh_token\<close> takes neither the blacklist nor the user collection: it
  consults no revocation entry and no \<^verbatim>\<open>password_changed_at\<close>.
\<close>

theorem logout_spares_refresh_token:
  assumes "login_user ev st clk e pw users = (Inr (Token access refresh sch ttl), users')"
    and "expires_at refresh = VInt x" and "timegm (vclk 0) \<le> x"
  shows "snd (logout bl access) = insert access bl
     \<and> get_current_user (snd (logout bl access)) st vclk access
         = Inl (HTTPException 401 (Msg ''Token has been revoked. Please login again.'') bearer)
     \<and> (\<exists>i \<in> fst ` set users.
           verify_refresh_token st vclk refresh
             = Inr \<lparr> uid = i, email = Some e, token_type = ''refresh'' \<rparr>)"
proof -
  from login_user_tokens [OF assms(1)] obtain i where i: "i \<in> fst ` set users"
    and r: "refresh = create_refresh_token st (clock_after 4 clk) [(''sub'', VStr i), (''email'', VStr e)] None"
    by blast
  have "verify_token st vclk refresh ''refresh'' = Inr \<lparr> uid = i, email = Some e, token_type = ''refresh'' \<rparr>"
    using assms(2,3) unfolding r issued_refresh
    by (intro verify_signed_ok) (simp_all add: expires_at_def dict_get_def)
  then have "verify_refresh_token st vclk refresh
             = Inr \<lparr> uid = i, email = Some e, token_type = ''refresh'' \<rparr>"
    by (simp add: verify_refresh_token_def)
  with i show ?thesis
    by (auto simp: logout_def add_token_def get_current_user_def is_blacklisted_def)
qed

theorem logout_spares_refresh_token_witness:
  "login_user quiet_env (default_settings ''secret'') (clock_at 11000000) ''a@b.c'' ''oldpass''
       sample_users
     = (Inr (Token
          (create_access_token (default_settings ''secret'') (clock_at 11000000)
             [(''sub'', VStr ''u1''), (''email'', VStr ''a@b.c'')] None)
          (create_refresh_token (default_settings ''secret'') (clock_at 11000000)
             [(''sub'', VStr ''u1''), (''email'', VStr ''a@b.c'')] None)
          ''bearer'' 1800),
        [(''u1'', dict_update local_account [(''last_login'', VDatetime 11000000),
                                             (''updated_at'', VDatetime 11000000)]),
         (''g1'', google_account)])
   \<and> expires_at (create_refresh_token (default_settings ''secret'') (clock_at 11000000)
        [(''sub'', VStr ''u1''), (''email'', VStr ''a@b.c'')] None) = VInt 604811
   \<and> timegm (clock_at 60000000 0) \<le> 604811
   \<and> get_current_user
        (snd (logout {} (create_access_token (default_settings ''secret'') (clock_at 11000000)
                           [(''sub'', VStr ''u1''), (''email'', VStr ''a@b.c'')] None)))
        (default_settings ''secret'') (clock_at 60000000)
        (create_access_token (default_settings ''secret'') (clock_at 11000000)
           [(''sub'', VStr ''u1''), (''email'', VStr ''a@b.c'')] None)
      = Inl (HTTPException 401 (Msg ''Token has been revoked. Please login again.'') bearer)
   \<and> (\<exists>i \<in> fst ` set sample_users.
         verify_refresh_token (default_settings ''secret'') (clock_at 60000000)
           (create_refresh_token (default_settings ''secret'') (clock_at 11000000)
              [(''sub'', VStr ''u1''), (''email'', VStr ''a@b.c'')] None)
         = Inr \<lparr> uid = i, email = Some ''a@b.c'', token_type = ''refresh'' \<rparr>)"
proof -
  let ?S = "default_settings ''secret''"
  let ?A = "create_access_token ?S (clock_at 11000000)
             [(''sub'', VStr ''u1''), (''email'', VStr ''a@b.c'')] None"
  let ?R = "create_refresh_token ?S (clock_at 11000000)
             [(''sub'', VStr ''u1''), (''email'', VStr ''a@b.c'')] None"
  have c: "clock_after n (clock_at t) = clock_at t" for n t
    by (simp add: clock_after_def clock_at_def)
  have l: "login_user quiet_env ?S (clock_at 11000000) ''a@b.c'' ''oldpass'' sample_users
     = (Inr (Token ?A ?R ''bearer'' 1800),
        [(''u1'', dict_update local_account [(''last_login'', VDatetime 11000000),
                                             (''updated_at'', VDatetime 11000000)]),
         (''g1'', google_account)])"
    by (simp add: login_user_def login_user_try_def where_email_def document_update_def
        dict_update_def dict_get_def quiet_env_def sample_users_def local_account_def
        google_account_def c Let_def)
      (simp add: default_settings_def clock_at_def)
  have x: "expires_at ?R = VInt 604811"
    by (simp add: expires_at_refresh default_settings_def clock_at_def timegm_def timedelta_days_def)
  have t: "timegm (clock_at 60000000 0) \<le> 604811"
    by (simp add: clock_at_def timegm_def)
  from logout_spares_refresh_token [where vclk = "clock_at 60000000" and bl = "{}", OF l x t] l x t
  show ?thesis
    by blast
qed

section \<open>The password-change check of the session guard\<close>

lemma TokenData_has_no_iat:
  "TokenData_getattr td ''iat'' = Inl (AttributeError ''TokenData'' ''iat'')"
  by (simp add: TokenData_getattr_def)

lemma get_current_active_user_fails:
  assumes "document_get ev users (uid current_user) = Inr (Some doc)"
  shows "get_current_active_user ev clk current_user users
     = (Inl (HTTPException 500
              (MsgExc ''Error fetching user data: '' (AttributeError ''TokenData'' ''iat'')) []),
        users)"
  using assms
  by (simp add: get_current_active_user_def get_current_active_user_try_def TokenData_has_no_iat)

lemma get_current_active_user_never_accepts:
  "fst (get_current_active_user ev clk current_user users) \<noteq> Inr user_data"
  by (simp add: get_current_active_user_def get_current_active_user_try_def TokenData_has_no_iat
      split: sum.splits option.splits)

lemma password_change_check_intended:
  "password_change_check (VInt 5) [(''password_changed_at'', VDatetime 10000000)]
     = Some (HTTP (HTTPException 401
         (Msg ''Your password was changed. Please login again with your new password.'') bearer))"
  "password_change_check (VInt 11) [(''password_changed_at'', VDatetime 10000000)] = None"
  by (simp_all add: password_change_check_def dict_get_def utcfromtimestamp_def)

text \<open>
  Claim C6 (the code departs from it). The \<^verbatim>\<open>TokenData\<close> that a successful
  verification returns has the fields \<^verbatim>\<open>uid\<close>, \<^verbatim>\<open>email\<close> and \<^verbatim>\<open>token_type\<close>
  only. For an access token issued at second 5, whose \<^verbatim>\<open>iat\<close> claim is 5 on the wire,
  the value returned carries no issued-at: reading \<^verbatim>\<open>.iat\<close> on it raises
  \<^verbatim>\<open>AttributeError\<close>.
\<close>

theorem session_data_lacks_issued_at:
  "issued_at (create_access_token (default_settings ''secret'') (clock_at 5000000)
       [(''sub'', VStr ''u1''), (''email'', VStr ''a@b.c'')] None) = VInt 5
   \<and> verify_token (default_settings ''secret'') (clock_at 6000000)
        (create_access_token (default_settings ''secret'') (clock_at 5000000)
           [(''sub'', VStr ''u1''), (''email'', VStr ''a@b.c'')] None) ''access''
      = Inr \<lparr> uid = ''u1'', email = Some ''a@b.c'', token_type = ''access'' \<rparr>
   \<and> TokenData_getattr \<lparr> uid = ''u1'', email = Some ''a@b.c'', token_type = ''access'' \<rparr> ''iat''
      = Inl (AttributeError ''TokenData'' ''iat'')"
  by (simp add: issued_access issued_at_def dict_get_def verify_token_def jwt_decode_def
      validate_exp_def validate_sub_def TokenData_init_def TokenData_getattr_def
      default_settings_def clock_at_def timegm_def timedelta_minutes_def)

text \<open>
  Claim C1 (the code departs from it). The account \<open>u1\<close> changed its password at second
  10. An access token issued at second 5 and one issued at second 11 are presented at
  second 12. The guard answers both with the 500 error "Error fetching user data", caused
  by the \<^verbatim>\<open>AttributeError\<close> on \<^verbatim>\<open>current_user.iat\<close>: the older token is not
  rejected with the 401 "Your password was changed" error, and the newer one is not
  accepted.
\<close>

theorem password_change_guard_fails:
  "map_of sample_users ''u1'' = Some local_account
   \<and> dict_get local_account ''password_changed_at'' = VDatetime 10000000
   \<and> issued_at (create_access_token (default_settings ''secret'') (clock_at 5000000)
       [(''sub'', VStr ''u1''), (''email'', VStr ''a@b.c'')] None) = VInt 5
   \<and> fst (depends_get_current_active_user {} quiet_env (default_settings ''secret'')
        (clock_at 12000000)
        (create_access_token (default_settings ''secret'') (clock_at 5000000)
           [(''sub'', VStr ''u1''), (''email'', VStr ''a@b.c'')] None) sample_users)
      = Inl (HTTPException 500
              (MsgExc ''Error fetching user data: '' (AttributeError ''TokenData'' ''iat'')) [])
   \<and> issued_at (create_access_token (default_settings ''secret'') (clock_at 11000000)
       [(''sub'', VStr ''u1''), (''email'', VStr ''a@b.c'')] None) = VInt 11
   \<and> fst (depends_get_current_active_user {} quiet_env (default_settings ''secret'')
        (clock_at 12000000)
        (create_access_token (default_settings ''secret'') (clock_at 11000000)
           [(''sub'', VStr ''u1''), (''email'', VStr ''a@b.c'')] None) sample_users)
      = Inl (HTTPException 500
              (MsgExc ''Error fetching user data: '' (AttributeError ''TokenData'' ''iat'')) [])"
proof -
  let ?S = "default_settings ''secret''"
  let ?td = "\<lparr> uid = ''u1'', email = Some ''a@b.c'', token_type = ''access'' \<rparr>"
  have doc: "document_get quiet_env sample_users (uid ?td)
      = Inr (Some local_account)"
    by (simp add: document_get_def quiet_env_def sample_users_def)
  have v: "get_current_user {} ?S (clock_at 12000000)
        (create_access_token ?S (clock_at t) [(''sub'', VStr ''u1''), (''email'', VStr ''a@b.c'')] None)
      = Inr ?td" if "t = 5000000 \<or> t = 11000000" for t
    using that
    by (auto simp: get_current_user_def is_blacklisted_def issued_access verify_token_def
        jwt_decode_def validate_exp_def validate_sub_def TokenData_init_def dict_get_def
        default_settings_def clock_at_def timegm_def timedelta_minutes_def)
  have g: "fst (depends_get_current_active_user {} quiet_env ?S (clock_at 12000000)
        (create_access_token ?S (clock_at t) [(''sub'', VStr ''u1''), (''email'', VStr ''a@b.c'')] None)
        sample_users)
      = Inl (HTTPException 500
              (MsgExc ''Error fetching user data: '' (AttributeError ''TokenData'' ''iat'')) [])"
    if "t = 5000000 \<or> t = 11000000" for t
    using v [OF that] get_current_active_user_fails [OF doc]
    by (simp add: depends_get_current_active_user_def)
  have i: "issued_at (create_access_token ?S (clock_at 5000000)
       [(''sub'', VStr ''u1''), (''email'', VStr ''a@b.c'')] None) = VInt 5"
     "issued_at (create_access_token ?S (clock_at 11000000)
       [(''sub'', VStr ''u1''), (''email'', VStr ''a@b.c'')] None) = VInt 11"
    by (simp_all add: issued_access issued_at_def dict_get_def clock_at_def timegm_def)
  have p: "map_of sample_users ''u1'' = Some local_account"
    "dict_get local_account ''password_changed_at'' = VDatetime 10000000"
    by (simp_all add: sample_users_def local_account_def dict_get_def)
  from g [of 5000000] g [of 11000000] i p show ?thesis by simp
qed

section \<open>Requesting a password reset\<close>

text \<open>The \<^verbatim>\<open>try\<close> block itself can raise, for instance when the Firestore query fails.\<close>

lemma request_password_reset_try_can_raise:
  "query_fault ev = Some x \<Longrightarrow> request_password_reset_try ev st clk e users = Inl x"
  by (simp add: request_password_reset_try_def where_email_def)

text \<open>
  Claim C8. For every email, every collection of users (the email known or not) and
  every behaviour of Firestore and of the mail transport, \<^verbatim>\<open>request_password_reset\<close>
  returns \<^verbatim>\<open>True\<close> and raises nothing, and the route \<^verbatim>\<open>/forgot-password\<close> answers
  with one and the same message. Two runs, one with a known and one with an unknown
  email, therefore return identical results.
\<close>

theorem request_password_reset_uniform:
  "request_password_reset ev st clk e users = Inr True
   \<and> forgot_password ev st clk e users
       = Inr \<lparr> message = ''If the email exists, a password reset link has been sent.'',
               success = True \<rparr>"
proof -
  have "request_password_reset ev st clk e users = Inr True"
    by (simp add: request_password_reset_def request_password_reset_try_def Let_def
        split: sum.splits)
  then show ?thesis
    by (simp add: forgot_password_def)
qed

section \<open>Password login against a Google account\<close>

lemma where_email_hit:
  assumes "where_email ev users v = Inr ((i, d) # rest)"
  shows "(i, d) \<in> set users" and "map_of d ''email'' = Some v" and "query_fault ev = None"
proof -
  from assms have q: "query_fault ev = None"
    and t: "take 1 (filter (\<lambda>(i, d). map_of d ''email'' = Some v) users) = (i, d) # rest"
    by (auto simp: where_email_def split: option.splits)
  from t have "(i, d) \<in> set (take 1 (filter (\<lambda>(i, d). map_of d ''email'' = Some v) users))"
    by simp
  then have "(i, d) \<in> set (filter (\<lambda>(i, d). map_of d ''email'' = Some v) users)"
    by (rule in_set_takeD)
  then show "(i, d) \<in> set users" and "map_of d ''email'' = Some v"
    by auto
  from q show "query_fault ev = None" .
qed

lemma login_user_unknown_email:
  "where_email ev users (VStr e) = Inr [] \<Longrightarrow>
     login_user ev st clk e pw users
       = (Inl (HTTPException 401 (Msg ''Invalid email or password'') []), users)"
  by (simp add: login_user_def login_user_try_def)



section \<open>Consuming a password-reset token\<close>

lemma map_of_dict_update:
  "map_of (dict_update d e) = map_of d ++ map_of (rev e)"
  unfolding dict_update_def
  by (induction e arbitrary: d) (auto simp: update_conv' map_add_def fun_eq_iff split: option.splits)

lemma reset_password_fields:
  "dict_get (dict_update d0 [(''hashed_password'', h), (''password_changed_at'', t),
                              (''updated_at'', t')]) ''hashed_password'' = h"
  "dict_get (dict_update d0 [(''hashed_password'', h), (''password_changed_at'', t),
                              (''updated_at'', t')]) ''password_changed_at'' = t"
  by (simp_all add: dict_get_def map_of_dict_update)

lemma reset_password_google:
  assumes "verify_password_reset_token st clk tok = Inr e"
    and "where_email ev users (VStr e) = Inr ((i, d) # rest)"
    and "dict_get d ''auth_provider'' = VStr ''google''"
  shows "reset_password ev st clk tok pw users
     = (Inl (HTTPException 400
              (Msg ''This account uses Google Sign-In. Password cannot be reset.'') []),
        users)"
  using assms by (simp add: reset_password_def reset_password_try_def)

lemma reset_password_succeeds:
  assumes "verify_password_reset_token st clk tok = Inr e"
    and "where_email ev users (VStr e) = Inr ((i, d) # rest)"
    and "dict_get d ''auth_provider'' \<noteq> VStr ''google''"
    and "firebase_update_user ev i pw = None"
    and "update_fault ev = None"
  shows "fst (reset_password ev st clk tok pw users) = Inr True"
proof -
  from where_email_hit(1) [OF assms(2)] have "map_of users i \<noteq> None"
    by (metis map_of_eq_None_iff fst_conv image_eqI)
  then obtain d0 where "map_of users i = Some d0" by blast
  with assms show ?thesis
    by (simp add: reset_password_def reset_password_try_def document_update_def Let_def)
qed

lemma reset_password_written:
  assumes "verify_password_reset_token st clk tok = Inr e"
    and "where_email ev users (VStr e) = Inr ((i, d) # rest)"
    and "fst (reset_password ev st clk tok pw users) = Inr b"
  shows "\<exists>d'. map_of (snd (reset_password ev st clk tok pw users)) i = Some d'
            \<and> dict_get d' ''hashed_password'' = VStr (hash_password ev pw)
            \<and> dict_get d' ''password_changed_at'' = VDatetime (clk 1)"
  using assms
  by (auto simp: reset_password_def reset_password_try_def document_update_def Let_def
      update_conv' reset_password_fields
      split: if_splits option.splits sum.splits)

text \<open>
  Claim C7. Let the reset token verify to an email and let the query for that email
  return the account \<open>i\<close> with document \<open>d\<close>. When \<open>d\<close> is a Google account,
  \<^verbatim>\<open>reset_password\<close> rejects with the 400 error "This account uses Google Sign-In.
  Password cannot be reset." and writes nothing. Otherwise, when Firebase Auth and
  Firestore accept the updates, it succeeds; and whenever it succeeds, the document of
  \<open>i\<close> afterwards holds \<^verbatim>\<open>hashed_password\<close> = the hash of the new password and
  \<^verbatim>\<open>password_changed_at\<close> = the time read by \<^verbatim>\<open>now = datetime.utcnow()\<close>.
\<close>

theorem reset_password_consume:
  assumes "verify_password_reset_token st clk tok = Inr e"
    and "where_email ev users (VStr e) = Inr ((i, d) # rest)"
  shows "(dict_get d ''auth_provider'' = VStr ''google'' \<longrightarrow>
            reset_password ev st clk tok pw users
              = (Inl (HTTPException 400
                       (Msg ''This account uses Google Sign-In. Password cannot be reset.'') []),
                 users))
     \<and> (dict_get d ''auth_provider'' \<noteq> VStr ''google'' \<longrightarrow>
          firebase_update_user ev i pw = None \<longrightarrow> update_fault ev = None \<longrightarrow>
            fst (reset_password ev st clk tok pw users) = Inr True)
     \<and> (fst (reset_password ev st clk tok pw users) = Inr b \<longrightarrow>
          (\<exists>d'. map_of (snd (reset_password ev st clk tok pw users)) i = Some d'
            \<and> dict_get d' ''hashed_password'' = VStr (hash_password ev pw)
            \<and> dict_get d' ''password_changed_at'' = VDatetime (clk 1)))"
  using reset_password_google [OF assms] reset_password_succeeds [OF assms]
    reset_password_written [OF assms]
  by blast

theorem reset_password_consume_witness:
  "verify_password_reset_token (default_settings ''secret'') (clock_at 20000000)
       (create_password_reset_token (default_settings ''secret'') (clock_at 19000000) ''g@x.y'')
     = Inr ''g@x.y''
   \<and> where_email quiet_env sample_users (VStr ''g@x.y'') = Inr ((''g1'', google_account) # [])
   \<and> dict_get google_account ''auth_provider'' = VStr ''google''
   \<and> reset_password quiet_env (default_settings ''secret'') (clock_at 20000000)
        (create_password_reset_token (default_settings ''secret'') (clock_at 19000000) ''g@x.y'')
        ''newpass'' sample_users
       = (Inl (HTTPException 400
                (Msg ''This account uses Google Sign-In. Password cannot be reset.'') []),
          sample_users)
   \<and> verify_password_reset_token (default_settings ''secret'') (clock_at 20000000)
       (create_password_reset_token (default_settings ''secret'') (clock_at 19000000) ''a@b.c'')
     = Inr ''a@b.c''
   \<and> where_email quiet_env sample_users (VStr ''a@b.c'') = Inr ((''u1'', local_account) # [])
   \<and> dict_get local_account ''auth_provider'' \<noteq> VStr ''google''
   \<and> firebase_update_user quiet_env ''u1'' ''newpass'' = None
   \<and> update_fault quiet_env = None
   \<and> fst (reset_password quiet_env (default_settings ''secret'') (clock_at 20000000)
        (create_password_reset_token (default_settings ''secret'') (clock_at 19000000) ''a@b.c'')
        ''newpass'' sample_users) = Inr True
   \<and> (\<exists>d'. map_of (snd (reset_password quiet_env (default_settings ''secret'')
                (clock_at 20000000)
                (create_password_reset_token (default_settings ''secret'') (clock_at 19000000)
                   ''a@b.c'')
                ''newpass'' sample_users)) ''u1'' = Some d'
          \<and> dict_get d' ''hashed_password'' = VStr (hash_password quiet_env ''newpass'')
          \<and> dict_get d' ''password_changed_at'' = VDatetime (clock_at 20000000 1))"
proof -
  let ?S = "default_settings ''secret''"
  have v: "verify_password_reset_token ?S (clock_at 20000000)
       (create_password_reset_token ?S (clock_at 19000000) a) = Inr a" for a
    by (simp add: issued_reset verify_password_reset_token_def jwt_decode_def validate_exp_def
        validate_sub_def dict_get_def clock_at_def timegm_def timedelta_hours_def)
  have qg: "where_email quiet_env sample_users (VStr ''g@x.y'') = Inr ((''g1'', google_account) # [])"
    and ql: "where_email quiet_env sample_users (VStr ''a@b.c'') = Inr ((''u1'', local_account) # [])"
    by (simp_all add: where_email_def quiet_env_def sample_users_def local_account_def
        google_account_def)
  have pg: "dict_get google_account ''auth_provider'' = VStr ''google''"
    and pl: "dict_get local_account ''auth_provider'' \<noteq> VStr ''google''"
    by (simp_all add: dict_get_def google_account_def local_account_def)
  have f: "firebase_update_user quiet_env ''u1'' ''newpass'' = None" "update_fault quiet_env = None"
    by (simp_all add: quiet_env_def)
  from reset_password_consume [OF v qg, of "''newpass''" True] pg
  have 1: "reset_password quiet_env ?S (clock_at 20000000)
        (create_password_reset_token ?S (clock_at 19000000) ''g@x.y'') ''newpass'' sample_users
       = (Inl (HTTPException 400
                (Msg ''This account uses Google Sign-In. Password cannot be reset.'') []),
          sample_users)"
    by blast
  from reset_password_consume [OF v ql, of "''newpass''" True] pl f
  have 2: "fst (reset_password quiet_env ?S (clock_at 20000000)
        (create_password_reset_token ?S (clock_at 19000000) ''a@b.c'')
        ''newpass'' sample_users) = Inr True"
    and 3: "\<exists>d'. map_of (snd (reset_password quiet_env ?S (clock_at 20000000)
                (create_password_reset_token ?S (clock_at 19000000) ''a@b.c'')
                ''newpass'' sample_users)) ''u1'' = Some d'
          \<and> dict_get d' ''hashed_password'' = VStr (hash_password quiet_env ''newpass'')
          \<and> dict_get d' ''password_changed_at'' = VDatetime (clock_at 20000000 1)"
    by blast+
  from v [of "''g@x.y''"] v [of "''a@b.c''"] qg ql pg pl f 1 2 3 show ?thesis
    by blast
qed

section \<open>Where \<open>password_changed_at\<close> is written\<close>

lemma clock_after_clock_at: "clock_after k (clock_at x) = clock_at x"
  by (simp add: clock_after_def clock_at_def)

lemma clock_at_read: "clock_at x i = x"
  by (simp add: clock_at_def)

lemma register_user_created:
  assumes "fst (register_user ev clk n e pw users) = Inr r"
  shows "\<exists>i. firebase_create_user ev (VStr e) = Inr i
     \<and> register_user ev clk n e pw users
     = (Inr [(''uid'', VStr i), (''email'', VStr e), (''full_name'', VStr n),
             (''email_verified'', VBool False), (''created_at'', VDatetime (clk 0))],
        AList.update i
          [(''email'', VStr e), (''full_name'', VStr n), (''email_verified'', VBool False),
           (''created_at'', VDatetime (clk 0)), (''updated_at'', VDatetime (clk 0)),
           (''auth_provider'', VStr ''email''),
           (''hashed_password'', VStr (hash_password ev pw)),
           (''password_changed_at'', VDatetime (clk 0))] users)"
proof -
  note defs = register_user_def register_user_try_def
  obtain ex where q: "where_email ev users (VStr e) = Inr ex"
    using assms by (cases "where_email ev users (VStr e)") (simp_all add: defs)
  have ex: "ex = []"
    using assms q by (cases ex) (simp_all add: defs)
  obtain i where c: "firebase_create_user ev (VStr e) = Inr i"
    using assms q ex by (cases "firebase_create_user ev (VStr e)") (simp_all add: defs)
  have sf: "set_fault ev = None"
    using assms q ex c
    by (cases "set_fault ev") (simp_all add: defs document_set_def Let_def)
  show ?thesis
    by (rule exI [of _ i]) (simp add: defs q ex c sf document_set_def Let_def dict_get_def)
qed

lemma register_user_written:
  assumes "fst (register_user ev clk n e pw users) = Inr r"
  shows "\<exists>i. firebase_create_user ev (VStr e) = Inr i
            \<and> dict_get r ''uid'' = VStr i
            \<and> map_of (snd (register_user ev clk n e pw users)) i
               = Some [(''email'', VStr e), (''full_name'', VStr n),
                       (''email_verified'', VBool False),
                       (''created_at'', VDatetime (clk 0)), (''updated_at'', VDatetime (clk 0)),
                       (''auth_provider'', VStr ''email''),
                       (''hashed_password'', VStr (hash_password ev pw)),
                       (''password_changed_at'', VDatetime (clk 0))]"
proof -
  from register_user_created [OF assms] obtain i where
    c: "firebase_create_user ev (VStr e) = Inr i" and
    f: "register_user ev clk n e pw users
     = (Inr [(''uid'', VStr i), (''email'', VStr e), (''full_name'', VStr n),
             (''email_verified'', VBool False), (''created_at'', VDatetime (clk 0))],
        AList.update i
          [(''email'', VStr e), (''full_name'', VStr n), (''email_verified'', VBool False),
           (''created_at'', VDatetime (clk 0)), (''updated_at'', VDatetime (clk 0)),
           (''auth_provider'', VStr ''email''),
           (''hashed_password'', VStr (hash_password ev pw)),
           (''password_changed_at'', VDatetime (clk 0))] users)"
    by blast
  from assms f have r: "dict_get r ''uid'' = VStr i"
    by (auto simp: dict_get_def)
  from f have m: "map_of (snd (register_user ev clk n e pw users)) i
      = Some [(''email'', VStr e), (''full_name'', VStr n), (''email_verified'', VBool False),
           (''created_at'', VDatetime (clk 0)), (''updated_at'', VDatetime (clk 0)),
           (''auth_provider'', VStr ''email''),
           (''hashed_password'', VStr (hash_password ev pw)),
           (''password_changed_at'', VDatetime (clk 0))]"
    by (simp add: update_conv')
  from c r m show ?thesis by blast
qed

lemma reset_password_others:
  assumes "verify_password_reset_token st clk tok = Inr a"
    and "where_email ev users (VStr a) = Inr ((i, d) # rest)"
    and "j \<noteq> i"
  shows "map_of (snd (reset_password ev st clk tok pw users)) j = map_of users j"
  using assms
  by (auto simp: reset_password_def reset_password_try_def document_update_def Let_def
      update_conv'
      split: if_splits option.splits sum.splits)

lemma google_auth_created_form:
  assumes "verify_oauth2_token ev t (GOOGLE_CLIENT_ID st) = Inr idinfo"
    and "where_email ev users (dict_get idinfo ''email'') = Inr []"
    and "fst (google_auth ev st clk t users) = Inr tk"
  shows "\<exists>i. (firebase_create_user ev (dict_get idinfo ''email'') = Inr i
            \<or> firebase_get_user_by_email ev (dict_get idinfo ''email'') = Inr i)
     \<and> google_auth ev st clk t users
     = (Inr (Token
          (create_access_token st (clock_after 2 clk)
             [(''sub'', VStr i), (''email'', dict_get idinfo ''email'')] None)
          (create_refresh_token st (clock_after 4 clk)
             [(''sub'', VStr i), (''email'', dict_get idinfo ''email'')] None)
          ''bearer'' (ACCESS_TOKEN_EXPIRE_MINUTES st * 60)),
        AList.update i
         [(''email'', dict_get idinfo ''email''), (''full_name'', dict_get idinfo ''name''),
          (''email_verified'', VBool True), (''created_at'', VDatetime (clk 0)),
          (''updated_at'', VDatetime (clk 1)), (''auth_provider'', VStr ''google''),
          (''photo_url'', dict_get idinfo ''picture''),
          (''google_uid'', dict_get idinfo ''sub'')] users)"
proof -
  note defs = google_auth_def google_auth_try_def Let_def
  have tr: "truthy (dict_get idinfo ''email'')"
    using assms by (cases "truthy (dict_get idinfo ''email'')") (simp_all add: defs)
  obtain i where c: "(case firebase_create_user ev (dict_get idinfo ''email'') of
                        Inr i \<Rightarrow> Inr i
                      | Inl x \<Rightarrow>
                          (case firebase_get_user_by_email ev (dict_get idinfo ''email'') of
                             Inr i \<Rightarrow> Inr i
                           | Inl y \<Rightarrow> Inl x)) = Inr i"
    using assms tr
    by (cases "(case firebase_create_user ev (dict_get idinfo ''email'') of
                        Inr i \<Rightarrow> Inr i
                      | Inl x \<Rightarrow>
                          (case firebase_get_user_by_email ev (dict_get idinfo ''email'') of
                             Inr i \<Rightarrow> Inr i
                           | Inl y \<Rightarrow> Inl x))") (simp_all add: defs)
  then have o: "firebase_create_user ev (dict_get idinfo ''email'') = Inr i
            \<or> firebase_get_user_by_email ev (dict_get idinfo ''email'') = Inr i"
    by (auto split: sum.splits)
  have sf: "set_fault ev = None"
    using assms tr c by (cases "set_fault ev") (simp_all add: defs document_set_def)
  have "google_auth ev st clk t users
     = (Inr (Token
          (create_access_token st (clock_after 2 clk)
             [(''sub'', VStr i), (''email'', dict_get idinfo ''email'')] None)
          (create_refresh_token st (clock_after 4 clk)
             [(''sub'', VStr i), (''email'', dict_get idinfo ''email'')] None)
          ''bearer'' (ACCESS_TOKEN_EXPIRE_MINUTES st * 60)),
        AList.update i
         [(''email'', dict_get idinfo ''email''), (''full_name'', dict_get idinfo ''name''),
          (''email_verified'', VBool True), (''created_at'', VDatetime (clk 0)),
          (''updated_at'', VDatetime (clk 1)), (''auth_provider'', VStr ''google''),
          (''photo_url'', dict_get idinfo ''picture''),
          (''google_uid'', dict_get idinfo ''sub'')] users)"
    by (simp add: defs assms(1,2) tr c sf document_set_def)
  with o show ?thesis by blast
qed

lemma google_auth_written:
  assumes "verify_oauth2_token ev t (GOOGLE_CLIENT_ID st) = Inr idinfo"
    and "where_email ev users (dict_get idinfo ''email'') = Inr []"
    and "fst (google_auth ev st clk t users) = Inr tk"
  shows "\<exists>i. (firebase_create_user ev (dict_get idinfo ''email'') = Inr i
              \<or> firebase_get_user_by_email ev (dict_get idinfo ''email'') = Inr i)
            \<and> dict_get (tok_payload (access_token tk)) ''sub'' = VStr i
            \<and> dict_get (tok_payload (refresh_token tk)) ''sub'' = VStr i
            \<and> map_of (snd (google_auth ev st clk t users)) i
               = Some [(''email'', dict_get idinfo ''email''),
                       (''full_name'', dict_get idinfo ''name''),
                       (''email_verified'', VBool True), (''created_at'', VDatetime (clk 0)),
                       (''updated_at'', VDatetime (clk 1)), (''auth_provider'', VStr ''google''),
                       (''photo_url'', dict_get idinfo ''picture''),
                       (''google_uid'', dict_get idinfo ''sub'')]"
proof -
  from google_auth_created_form [OF assms] obtain i where
    o: "firebase_create_user ev (dict_get idinfo ''email'') = Inr i
            \<or> firebase_get_user_by_email ev (dict_get idinfo ''email'') = Inr i" and
    f: "google_auth ev st clk t users
     = (Inr (Token
          (create_access_token st (clock_after 2 clk)
             [(''sub'', VStr i), (''email'', dict_get idinfo ''email'')] None)
          (create_refresh_token st (clock_after 4 clk)
             [(''sub'', VStr i), (''email'', dict_get idinfo ''email'')] None)
          ''bearer'' (ACCESS_TOKEN_EXPIRE_MINUTES st * 60)),
        AList.update i
         [(''email'', dict_get idinfo ''email''), (''full_name'', dict_get idinfo ''name''),
          (''email_verified'', VBool True), (''created_at'', VDatetime (clk 0)),
          (''updated_at'', VDatetime (clk 1)), (''auth_provider'', VStr ''google''),
          (''photo_url'', dict_get idinfo ''picture''),
          (''google_uid'', dict_get idinfo ''sub'')] users)"
    by blast
  from assms(3) f have tk: "tk = Token
          (create_access_token st (clock_after 2 clk)
             [(''sub'', VStr i), (''email'', dict_get idinfo ''email'')] None)
          (create_refresh_token st (clock_after 4 clk)
             [(''sub'', VStr i), (''email'', dict_get idinfo ''email'')] None)
          ''bearer'' (ACCESS_TOKEN_EXPIRE_MINUTES st * 60)"
    by simp
  have s: "dict_get (tok_payload (access_token tk)) ''sub'' = VStr i"
    "dict_get (tok_payload (refresh_token tk)) ''sub'' = VStr i"
    unfolding tk
    by (simp_all add: create_access_token_def create_refresh_token_def jwt_encode_def
        dict_update_def dict_get_def intdate_def Let_def)
  have m: "map_of (snd (google_auth ev st clk t users)) i
     = Some [(''email'', dict_get idinfo ''email''), (''full_name'', dict_get idinfo ''name''),
          (''email_verified'', VBool True), (''created_at'', VDatetime (clk 0)),
          (''updated_at'', VDatetime (clk 1)), (''auth_provider'', VStr ''google''),
          (''photo_url'', dict_get idinfo ''picture''),
          (''google_uid'', dict_get idinfo ''sub'')]"
    unfolding f by (simp add: update_conv')
  from o s m show ?thesis by blast
qed

text \<open>
  Claim C9 (as amended). A successful \<^verbatim>\<open>register_user\<close> writes, under the uid that
  Firebase Auth created and that it returns, a record whose \<^verbatim>\<open>password_changed_at\<close>
  equals its \<^verbatim>\<open>created_at\<close>. A successful \<^verbatim>\<open>reset_password\<close> sets
  \<^verbatim>\<open>hashed_password\<close> and \<^verbatim>\<open>password_changed_at\<close> (to the time of the reset) in
  the record of the account resolved from the token, and a reset leaves every other
  record as it was. A successful \<^verbatim>\<open>google_auth\<close> for an email not yet in the
  collection writes, under the uid created (or found) in Firebase Auth, which is the
  subject of the tokens it returns, a record with \<^verbatim>\<open>auth_provider\<close>
  \<^verbatim>\<open>"google"\<close> and no \<^verbatim>\<open>password_changed_at\<close>.
\<close>

theorem password_changed_at_lifecycle:
  "(fst (register_user ev clk n e pw users) = Inr r \<longrightarrow>
      (\<exists>i. firebase_create_user ev (VStr e) = Inr i
            \<and> dict_get r ''uid'' = VStr i
            \<and> map_of (snd (register_user ev clk n e pw users)) i
               = Some [(''email'', VStr e), (''full_name'', VStr n),
                       (''email_verified'', VBool False),
                       (''created_at'', VDatetime (clk 0)), (''updated_at'', VDatetime (clk 0)),
                       (''auth_provider'', VStr ''email''),
                       (''hashed_password'', VStr (hash_password ev pw)),
                       (''password_changed_at'', VDatetime (clk 0))]))
   \<and> (verify_password_reset_token st clk tok = Inr a \<longrightarrow>
      where_email ev users (VStr a) = Inr ((k, d) # rest) \<longrightarrow>
        (fst (reset_password ev st clk tok pw users) = Inr b \<longrightarrow>
           (\<exists>d'. map_of (snd (reset_password ev st clk tok pw users)) k = Some d'
              \<and> dict_get d' ''hashed_password'' = VStr (hash_password ev pw)
              \<and> dict_get d' ''password_changed_at'' = VDatetime (clk 1)))
        \<and> (j \<noteq> k \<longrightarrow>
             map_of (snd (reset_password ev st clk tok pw users)) j = map_of users j))
   \<and> (verify_oauth2_token ev t (GOOGLE_CLIENT_ID st) = Inr idinfo \<longrightarrow>
      where_email ev users (dict_get idinfo ''email'') = Inr [] \<longrightarrow>
      fst (google_auth ev st clk t users) = Inr tk \<longrightarrow>
      (\<exists>i. (firebase_create_user ev (dict_get idinfo ''email'') = Inr i
              \<or> firebase_get_user_by_email ev (dict_get idinfo ''email'') = Inr i)
            \<and> dict_get (tok_payload (access_token tk)) ''sub'' = VStr i
            \<and> dict_get (tok_payload (refresh_token tk)) ''sub'' = VStr i
            \<and> map_of (snd (google_auth ev st clk t users)) i
               = Some [(''email'', dict_get idinfo ''email''),
                       (''full_name'', dict_get idinfo ''name''),
                       (''email_verified'', VBool True), (''created_at'', VDatetime (clk 0)),
                       (''updated_at'', VDatetime (clk 1)), (''auth_provider'', VStr ''google''),
                       (''photo_url'', dict_get idinfo ''picture''),
                       (''google_uid'', dict_get idinfo ''sub'')]
            \<and> map_of [(''email'', dict_get idinfo ''email''),
                       (''full_name'', dict_get idinfo ''name''),
                       (''email_verified'', VBool True), (''created_at'', VDatetime (clk 0)),
                       (''updated_at'', VDatetime (clk 1)), (''auth_provider'', VStr ''google''),
                       (''photo_url'', dict_get idinfo ''picture''),
                       (''google_uid'', dict_get idinfo ''sub'')] ''password_changed_at'' = None))"
proof (intro conjI impI)
  assume a: "fst (register_user ev clk n e pw users) = Inr r"
  show "\<exists>i. firebase_create_user ev (VStr e) = Inr i
            \<and> dict_get r ''uid'' = VStr i
            \<and> map_of (snd (register_user ev clk n e pw users)) i
               = Some [(''email'', VStr e), (''full_name'', VStr n),
                       (''email_verified'', VBool False),
                       (''created_at'', VDatetime (clk 0)), (''updated_at'', VDatetime (clk 0)),
                       (''auth_provider'', VStr ''email''),
                       (''hashed_password'', VStr (hash_password ev pw)),
                       (''password_changed_at'', VDatetime (clk 0))]"
    by (fact register_user_written [OF a])
next
  assume v: "verify_password_reset_token st clk tok = Inr a"
    and q: "where_email ev users (VStr a) = Inr ((k, d) # rest)"
    and s: "fst (reset_password ev st clk tok pw users) = Inr b"
  show "\<exists>d'. map_of (snd (reset_password ev st clk tok pw users)) k = Some d'
              \<and> dict_get d' ''hashed_password'' = VStr (hash_password ev pw)
              \<and> dict_get d' ''password_changed_at'' = VDatetime (clk 1)"
    by (fact reset_password_written [OF v q s])
next
  assume v: "verify_password_reset_token st clk tok = Inr a"
    and q: "where_email ev users (VStr a) = Inr ((k, d) # rest)"
    and n: "j \<noteq> k"
  show "map_of (snd (reset_password ev st clk tok pw users)) j = map_of users j"
    by (fact reset_password_others [OF v q n])
next
  assume a: "verify_oauth2_token ev t (GOOGLE_CLIENT_ID st) = Inr idinfo"
    and b: "where_email ev users (dict_get idinfo ''email'') = Inr []"
    and c: "fst (google_auth ev st clk t users) = Inr tk"
  from google_auth_written [OF a b c]
  show "\<exists>i. (firebase_create_user ev (dict_get idinfo ''email'') = Inr i
              \<or> firebase_get_user_by_email ev (dict_get idinfo ''email'') = Inr i)
            \<and> dict_get (tok_payload (access_token tk)) ''sub'' = VStr i
            \<and> dict_get (tok_payload (refresh_token tk)) ''sub'' = VStr i
            \<and> map_of (snd (google_auth ev st clk t users)) i
               = Some [(''email'', dict_get idinfo ''email''),
                       (''full_name'', dict_get idinfo ''name''),
                       (''email_verified'', VBool True), (''created_at'', VDatetime (clk 0)),
                       (''updated_at'', VDatetime (clk 1)), (''auth_provider'', VStr ''google''),
                       (''photo_url'', dict_get idinfo ''picture''),
                       (''google_uid'', dict_get idinfo ''sub'')]
            \<and> map_of [(''email'', dict_get idinfo ''email''),
                       (''full_name'', dict_get idinfo ''name''),
                       (''email_verified'', VBool True), (''created_at'', VDatetime (clk 0)),
                       (''updated_at'', VDatetime (clk 1)), (''auth_provider'', VStr ''google''),
                       (''photo_url'', dict_get idinfo ''picture''),
                       (''google_uid'', dict_get idinfo ''sub'')] ''password_changed_at'' = None"
    by simp
qed

theorem password_changed_at_lifecycle_witness:
  "fst (register_user quiet_env (clock_at 20000000) ''N'' ''n@x.y'' ''newpass'' sample_users)
     = Inr [(''uid'', VStr ''n1''), (''email'', VStr ''n@x.y''), (''full_name'', VStr ''N''),
            (''email_verified'', VBool False), (''created_at'', VDatetime 20000000)]
   \<and> (\<exists>i. firebase_create_user quiet_env (VStr ''n@x.y'') = Inr i
          \<and> dict_get [(''uid'', VStr ''n1''), (''email'', VStr ''n@x.y''),
                        (''full_name'', VStr ''N''), (''email_verified'', VBool False),
                        (''created_at'', VDatetime 20000000)] ''uid'' = VStr i
          \<and> map_of (snd (register_user quiet_env (clock_at 20000000) ''N'' ''n@x.y'' ''newpass''
                          sample_users)) i
             = Some [(''email'', VStr ''n@x.y''), (''full_name'', VStr ''N''),
                     (''email_verified'', VBool False),
                     (''created_at'', VDatetime (clock_at 20000000 0)),
                     (''updated_at'', VDatetime (clock_at 20000000 0)),
                     (''auth_provider'', VStr ''email''),
                     (''hashed_password'', VStr (hash_password quiet_env ''newpass'')),
                     (''password_changed_at'', VDatetime (clock_at 20000000 0))])
   \<and> verify_password_reset_token (default_settings ''secret'') (clock_at 20000000)
        (create_password_reset_token (default_settings ''secret'') (clock_at 19000000) ''a@b.c'')
       = Inr ''a@b.c''
   \<and> where_email quiet_env sample_users (VStr ''a@b.c'') = Inr ((''u1'', local_account) # [])
   \<and> fst (reset_password quiet_env (default_settings ''secret'') (clock_at 20000000)
        (create_password_reset_token (default_settings ''secret'') (clock_at 19000000) ''a@b.c'')
        ''newpass'' sample_users) = Inr True
   \<and> (\<exists>d'. map_of (snd (reset_password quiet_env (default_settings ''secret'')
                (clock_at 20000000)
                (create_password_reset_token (default_settings ''secret'') (clock_at 19000000)
                   ''a@b.c'')
                ''newpass'' sample_users)) ''u1'' = Some d'
          \<and> dict_get d' ''hashed_password'' = VStr (hash_password quiet_env ''newpass'')
          \<and> dict_get d' ''password_changed_at'' = VDatetime (clock_at 20000000 1))
   \<and> ''g1'' \<noteq> ''u1''
   \<and> map_of (snd (reset_password quiet_env (default_settings ''secret'') (clock_at 20000000)
                (create_password_reset_token (default_settings ''secret'') (clock_at 19000000)
                   ''a@b.c'')
                ''newpass'' sample_users)) ''g1'' = map_of sample_users ''g1''
   \<and> verify_oauth2_token quiet_env ''idtok'' (GOOGLE_CLIENT_ID (default_settings ''secret''))
       = Inr [(''email'', VStr ''new@x.y''), (''name'', VStr ''New''),
              (''sub'', VStr ''g-2''), (''picture'', VNone)]
   \<and> where_email quiet_env sample_users
        (dict_get [(''email'', VStr ''new@x.y''), (''name'', VStr ''New''),
                   (''sub'', VStr ''g-2''), (''picture'', VNone)] ''email'') = Inr []
   \<and> fst (google_auth quiet_env (default_settings ''secret'') (clock_at 20000000) ''idtok''
            sample_users)
       = Inr (Token
           (create_access_token (default_settings ''secret'') (clock_at 20000000)
              [(''sub'', VStr ''n1''), (''email'', VStr ''new@x.y'')] None)
           (create_refresh_token (default_settings ''secret'') (clock_at 20000000)
              [(''sub'', VStr ''n1''), (''email'', VStr ''new@x.y'')] None)
           ''bearer'' 1800)
   \<and> (\<exists>i. firebase_create_user quiet_env (VStr ''new@x.y'') = Inr i
          \<and> map_of (snd (google_auth quiet_env (default_settings ''secret'')
                (clock_at 20000000) ''idtok'' sample_users)) i
             = Some [(''email'', VStr ''new@x.y''), (''full_name'', VStr ''New''),
                     (''email_verified'', VBool True), (''created_at'', VDatetime 20000000),
                     (''updated_at'', VDatetime 20000000), (''auth_provider'', VStr ''google''),
                     (''photo_url'', VNone), (''google_uid'', VStr ''g-2'')]
          \<and> map_of [(''email'', VStr ''new@x.y''), (''full_name'', VStr ''New''),
                     (''email_verified'', VBool True), (''created_at'', VDatetime 20000000),
                     (''updated_at'', VDatetime 20000000), (''auth_provider'', VStr ''google''),
                     (''photo_url'', VNone), (''google_uid'', VStr ''g-2'')]
               ''password_changed_at'' = None)"
proof -
  let ?S = "default_settings ''secret''"
  let ?I = "[(''email'', VStr ''new@x.y''), (''name'', VStr ''New''),
             (''sub'', VStr ''g-2''), (''picture'', VNone)]"
  let ?R = "[(''uid'', VStr ''n1''), (''email'', VStr ''n@x.y''), (''full_name'', VStr ''N''),
            (''email_verified'', VBool False), (''created_at'', VDatetime 20000000)]"
  let ?T = "create_password_reset_token ?S (clock_at 19000000) ''a@b.c''"
  let ?K = "Token
           (create_access_token ?S (clock_at 20000000)
              [(''sub'', VStr ''n1''), (''email'', VStr ''new@x.y'')] None)
           (create_refresh_token ?S (clock_at 20000000)
              [(''sub'', VStr ''n1''), (''email'', VStr ''new@x.y'')] None)
           ''bearer'' 1800"
  have qn: "where_email quiet_env sample_users (VStr ''n@x.y'') = Inr []"
    and qg: "where_email quiet_env sample_users (dict_get ?I ''email'') = Inr []"
    and ql: "where_email quiet_env sample_users (VStr ''a@b.c'') = Inr ((''u1'', local_account) # [])"
    by (simp_all add: where_email_def quiet_env_def sample_users_def local_account_def
        google_account_def dict_get_def)
  have e: "firebase_create_user quiet_env v = Inr ''n1''"
    "set_fault quiet_env = None" "update_fault quiet_env = None"
    "firebase_update_user quiet_env ''u1'' ''newpass'' = None"
    "verify_oauth2_token quiet_env ''idtok'' (GOOGLE_CLIENT_ID ?S) = Inr ?I" for v
    by (simp_all add: quiet_env_def)
  have m: "ACCESS_TOKEN_EXPIRE_MINUTES ?S = 30"
    by (simp add: default_settings_def)
  have r: "fst (register_user quiet_env (clock_at 20000000) ''N'' ''n@x.y'' ''newpass'' sample_users)
     = Inr ?R"
    unfolding register_user_def register_user_try_def
    by (simp add: qn e document_set_def dict_get_def Let_def clock_at_read)
  have v: "verify_password_reset_token ?S (clock_at 20000000) ?T = Inr ''a@b.c''"
    by (simp add: issued_reset verify_password_reset_token_def jwt_decode_def validate_exp_def
        validate_sub_def dict_get_def clock_at_def timegm_def timedelta_hours_def)
  have pl: "dict_get local_account ''auth_provider'' \<noteq> VStr ''google''"
    by (simp add: dict_get_def local_account_def)
  have p: "fst (reset_password quiet_env ?S (clock_at 20000000) ?T ''newpass'' sample_users)
      = Inr True"
    by (rule reset_password_succeeds [OF v ql pl e(4) e(3)])
  have qg': "where_email quiet_env sample_users (VStr ''new@x.y'') = Inr []"
    using qg by (simp add: dict_get_def)
  have g: "fst (google_auth quiet_env ?S (clock_at 20000000) ''idtok'' sample_users) = Inr ?K"
    unfolding google_auth_def google_auth_try_def
    by (simp add: e qg' m dict_get_def document_set_def Let_def clock_after_clock_at)
  have ne: "''g1'' \<noteq> ''u1''" by simp
  note th = password_changed_at_lifecycle [where ev = quiet_env and clk = "clock_at 20000000"
      and n = "''N''" and e = "''n@x.y''" and pw = "''newpass''" and users = sample_users
      and st = ?S and t = "''idtok''" and idinfo = ?I and tok = ?T and a = "''a@b.c''"
      and k = "''u1''" and d = local_account and rest = "[]" and j = "''g1''"
      and b = True and r = ?R and tk = ?K]
  from th r have 1: "\<exists>i. firebase_create_user quiet_env (VStr ''n@x.y'') = Inr i
          \<and> dict_get ?R ''uid'' = VStr i
          \<and> map_of (snd (register_user quiet_env (clock_at 20000000) ''N'' ''n@x.y'' ''newpass''
                          sample_users)) i
             = Some [(''email'', VStr ''n@x.y''), (''full_name'', VStr ''N''),
                     (''email_verified'', VBool False),
                     (''created_at'', VDatetime (clock_at 20000000 0)),
                     (''updated_at'', VDatetime (clock_at 20000000 0)),
                     (''auth_provider'', VStr ''email''),
                     (''hashed_password'', VStr (hash_password quiet_env ''newpass'')),
                     (''password_changed_at'', VDatetime (clock_at 20000000 0))]"
    by blast
  from th v ql p have 2: "\<exists>d'. map_of (snd (reset_password quiet_env ?S (clock_at 20000000) ?T
                ''newpass'' sample_users)) ''u1'' = Some d'
          \<and> dict_get d' ''hashed_password'' = VStr (hash_password quiet_env ''newpass'')
          \<and> dict_get d' ''password_changed_at'' = VDatetime (clock_at 20000000 1)"
    by blast
  from th v ql ne have 3: "map_of (snd (reset_password quiet_env ?S (clock_at 20000000) ?T
                ''newpass'' sample_users)) ''g1'' = map_of sample_users ''g1''"
    by blast
  from th e(5) qg g obtain i where
    "firebase_create_user quiet_env (dict_get ?I ''email'') = Inr i
       \<or> firebase_get_user_by_email quiet_env (dict_get ?I ''email'') = Inr i"
    and gm: "map_of (snd (google_auth quiet_env ?S (clock_at 20000000) ''idtok'' sample_users)) i
       = Some [(''email'', dict_get ?I ''email''), (''full_name'', dict_get ?I ''name''),
               (''email_verified'', VBool True),
               (''created_at'', VDatetime (clock_at 20000000 0)),
               (''updated_at'', VDatetime (clock_at 20000000 1)),
               (''auth_provider'', VStr ''google''),
               (''photo_url'', dict_get ?I ''picture''),
               (''google_uid'', dict_get ?I ''sub'')]"
    by blast
  then have i: "i = ''n1''"
    by (auto simp: quiet_env_def)
  have 4: "\<exists>i. firebase_create_user quiet_env (VStr ''new@x.y'') = Inr i
          \<and> map_of (snd (google_auth quiet_env ?S (clock_at 20000000) ''idtok'' sample_users)) i
             = Some [(''email'', VStr ''new@x.y''), (''full_name'', VStr ''New''),
                     (''email_verified'', VBool True), (''created_at'', VDatetime 20000000),
                     (''updated_at'', VDatetime 20000000), (''auth_provider'', VStr ''google''),
                     (''photo_url'', VNone), (''google_uid'', VStr ''g-2'')]
          \<and> map_of [(''email'', VStr ''new@x.y''), (''full_name'', VStr ''New''),
                     (''email_verified'', VBool True), (''created_at'', VDatetime 20000000),
                     (''updated_at'', VDatetime 20000000), (''auth_provider'', VStr ''google''),
                     (''photo_url'', VNone), (''google_uid'', VStr ''g-2'')]
               ''password_changed_at'' = None"
    using gm unfolding i
    by (intro exI [of _ "''n1''"]) (simp add: e dict_get_def clock_at_read)
  from r 1 v ql p 2 ne 3 e(5) qg g 4 show ?thesis
    by (intro conjI)
qed

text \<open>
  The claim C9 as written has both creation paths set the field. A first Google sign-in
  for \<open>new@x.y\<close> succeeds and creates the record \<open>n1\<close>, which has no
  \<^verbatim>\<open>password_changed_at\<close>.
\<close>

theorem federated_record_lacks_password_changed_at:
  "where_email quiet_env sample_users (VStr ''new@x.y'') = Inr []
   \<and> fst (google_auth quiet_env (default_settings ''secret'') (clock_at 11000000) ''idtok''
            sample_users)
       = Inr (Token
           (create_access_token (default_settings ''secret'') (clock_at 11000000)
              [(''sub'', VStr ''n1''), (''email'', VStr ''new@x.y'')] None)
           (create_refresh_token (default_settings ''secret'') (clock_at 11000000)
              [(''sub'', VStr ''n1''), (''email'', VStr ''new@x.y'')] None)
           ''bearer'' 1800)
   \<and> map_of (snd (google_auth quiet_env (default_settings ''secret'') (clock_at 11000000)
                    ''idtok'' sample_users)) ''n1''
       = Some [(''email'', VStr ''new@x.y''), (''full_name'', VStr ''New''),
               (''email_verified'', VBool True), (''created_at'', VDatetime 11000000),
               (''updated_at'', VDatetime 11000000), (''auth_provider'', VStr ''google''),
               (''photo_url'', VNone), (''google_uid'', VStr ''g-2'')]
   \<and> map_of [(''email'', VStr ''new@x.y''), (''full_name'', VStr ''New''),
               (''email_verified'', VBool True), (''created_at'', VDatetime 11000000),
               (''updated_at'', VDatetime 11000000), (''auth_provider'', VStr ''google''),
               (''photo_url'', VNone), (''google_uid'', VStr ''g-2'')]
        ''password_changed_at'' = None"
proof -
  have q: "where_email quiet_env sample_users (VStr ''new@x.y'') = Inr []"
    by (simp add: where_email_def quiet_env_def sample_users_def local_account_def
        google_account_def)
  have g: "google_auth quiet_env (default_settings ''secret'') (clock_at 11000000) ''idtok''
            sample_users
     = (Inr (Token
           (create_access_token (default_settings ''secret'') (clock_at 11000000)
              [(''sub'', VStr ''n1''), (''email'', VStr ''new@x.y'')] None)
           (create_refresh_token (default_settings ''secret'') (clock_at 11000000)
              [(''sub'', VStr ''n1''), (''email'', VStr ''new@x.y'')] None)
           ''bearer'' 1800),
        AList.update ''n1''
          [(''email'', VStr ''new@x.y''), (''full_name'', VStr ''New''),
           (''email_verified'', VBool True), (''created_at'', VDatetime 11000000),
           (''updated_at'', VDatetime 11000000), (''auth_provider'', VStr ''google''),
           (''photo_url'', VNone), (''google_uid'', VStr ''g-2'')] sample_users)"
  proof -
    have v: "verify_oauth2_token quiet_env ''idtok'' (GOOGLE_CLIENT_ID (default_settings ''secret''))
        = Inr [(''email'', VStr ''new@x.y''), (''name'', VStr ''New''),
               (''sub'', VStr ''g-2''), (''picture'', VNone)]"
      and c: "firebase_create_user quiet_env (VStr ''new@x.y'') = Inr ''n1''"
      and f: "set_fault quiet_env = None"
      by (simp_all add: quiet_env_def)
    have m: "ACCESS_TOKEN_EXPIRE_MINUTES (default_settings ''secret'') = 30"
      by (simp add: default_settings_def)
    show ?thesis
      unfolding google_auth_def google_auth_try_def
      by (simp add: v c f q m dict_get_def document_set_def Let_def clock_after_clock_at
          clock_at_read)
  qed
  show ?thesis
    unfolding g by (simp add: q update_conv')
qed

end
